theory Spec2Isabelle
  imports Main "HOL-Library.Word"
begin

unbundle bit_operations_syntax

section \<open>Errors and bytes\<close>

text \<open>
  The exceptions of \<^verbatim>\<open>blockchain.py\<close> become values. \<^verbatim>\<open>InvalidHeader\<close>
  carries a formatted message in the source; the model keeps which message it is.
\<close>

datatype invalid_reason =
    EmptyHeader
  | BadHeaderLength
  | PrevHashMismatch
  | HashMismatch
  | BitsMismatch
  | InsufficientPow
  | BitsNotUint32
  | TargetNegative
  | TargetOverflown

datatype error =
    InvalidHeader invalid_reason
  | MissingHeader int
  | NotEnoughHeaders
  | KeyError
  | IndexError
  | ValueError
  | OverflowError
  | TypeError
  | AttributeError
  | StructError
  | FloatArithmetic
  | ZeroDivisionError
  | AssertionError
  | FileNotFoundError
  | OtherException

type_synonym byte = "8 word"
type_synonym bytes = "byte list"

section \<open>Target arithmetic\<close>

definition MAX_TARGET :: int where
  "MAX_TARGET = 0x00000fffffffffffffffffffffffffffffffffffffffffffffffffffffffffff"

definition KAWPOW_LIMIT :: int where
  "KAWPOW_LIMIT = 0x0000000000ffffffffffffffffffffffffffffffffffffffffffffffffffffff"

definition MEOWPOW_LIMIT :: int where
  "MEOWPOW_LIMIT = 0x0000000000ffffffffffffffffffffffffffffffffffffffffffffffffffffff"

definition SCRYPT_LIMIT :: int where
  "SCRYPT_LIMIT = 0x00000fffffffffffffffffffffffffffffffffffffffffffffffffffffffffff"

definition HEADER_SIZE :: nat where
  "HEADER_SIZE = 120"

definition LEGACY_HEADER_SIZE :: nat where
  "LEGACY_HEADER_SIZE = 80"

definition DGW_PASTBLOCKS :: nat where
  "DGW_PASTBLOCKS = 180"

definition LWMA_AVERAGING_WINDOW :: nat where
  "LWMA_AVERAGING_WINDOW = 90"

definition POW_TARGET_SPACING :: int where
  "POW_TARGET_SPACING = 60"

text \<open>\<^verbatim>\<open>Blockchain.bits_to_target\<close> (arith_uint256::SetCompact).\<close>

definition bits_to_target :: "int \<Rightarrow> error + int" where
  "bits_to_target bits =
     (if \<not> (0 \<le> bits \<and> bits < push_bit 32 1) then Inl (InvalidHeader BitsNotUint32)
      else
        let bitsN = (drop_bit 24 bits) AND 0xff;
            bitsBase = bits AND 0x7fffff;
            target = (if bitsN \<le> 3 then drop_bit (nat (8 * (3 - bitsN))) bitsBase
                      else push_bit (nat (8 * (bitsN - 3))) bitsBase)
        in if target \<noteq> 0 \<and> bits AND 0x800000 \<noteq> 0 then Inl (InvalidHeader TargetNegative)
           else if target \<noteq> 0 \<and>
                   (bitsN > 34 \<or> (bitsN > 33 \<and> bitsBase > 0xff) \<or> (bitsN > 32 \<and> bitsBase > 0xffff))
             then Inl (InvalidHeader TargetOverflown)
           else Inr target)"

text \<open>\<^verbatim>\<open>int.to_bytes(length, byteorder='big')\<close>: OverflowError outside \<open>[0, 256^length)\<close>.\<close>

primrec be_bytes :: "nat \<Rightarrow> int \<Rightarrow> bytes" where
  "be_bytes 0 t = []"
| "be_bytes (Suc k) t = word_of_int (t div 256 ^ k) # be_bytes k t"

definition to_bytes_big :: "int \<Rightarrow> nat \<Rightarrow> error + bytes" where
  "to_bytes_big t len =
     (if t < 0 \<or> t \<ge> 256 ^ len then Inl OverflowError else Inr (be_bytes len t))"

text \<open>\<^verbatim>\<open>int.from_bytes(b, byteorder='big')\<close>.\<close>

definition from_bytes_big :: "bytes \<Rightarrow> int" where
  "from_bytes_big bs = foldl (\<lambda>acc b. acc * 256 + uint b) 0 bs"

text \<open>
  The \<^verbatim>\<open>while bitsN > 0 and c[0] == 0\<close> loop of \<^verbatim>\<open>target_to_bits\<close>; the counter
  starts at \<open>len(c)\<close> and only decreases, so it is a natural number.
\<close>

fun strip_leading_zeros :: "bytes \<Rightarrow> nat \<Rightarrow> error + (bytes \<times> nat)" where
  "strip_leading_zeros c 0 = Inr (c, 0)"
| "strip_leading_zeros c (Suc n) =
     (case c of
        [] \<Rightarrow> Inl IndexError
      | b # rest \<Rightarrow>
          if b = 0
          then strip_leading_zeros (if length rest < 3 then rest @ [0] else rest) n
          else Inr (c, Suc n))"

text \<open>\<^verbatim>\<open>Blockchain.target_to_bits\<close> (arith_uint256::GetCompact).\<close>

definition target_to_bits :: "int \<Rightarrow> error + int" where
  "target_to_bits target =
     (case to_bytes_big target 32 of
        Inl e \<Rightarrow> Inl e
      | Inr c0 \<Rightarrow>
          (case strip_leading_zeros c0 (length c0) of
             Inl e \<Rightarrow> Inl e
           | Inr (c, bitsN) \<Rightarrow>
               let bitsBase = from_bytes_big (take 3 c)
               in if bitsBase \<ge> 0x800000
                  then Inr (push_bit 24 (int bitsN + 1) OR drop_bit 8 bitsBase)
                  else Inr (push_bit 24 (int bitsN) OR bitsBase)))"

subsection \<open>The compact encoding in arithmetic terms\<close>

text \<open>
  The exponent byte \<open>N\<close>, the 23-bit mantissa and the value they denote, written with
  \<open>div\<close> and \<open>mod\<close>; the theorems below relate \<^const>\<open>bits_to_target\<close> to them.
\<close>

definition compact_exponent :: "int \<Rightarrow> nat" where
  "compact_exponent b = nat (b div 2 ^ 24 mod 256)"

definition compact_mantissa :: "int \<Rightarrow> int" where
  "compact_mantissa b = b mod 2 ^ 23"

definition compact_value :: "int \<Rightarrow> int" where
  "compact_value b =
     (if compact_exponent b \<le> 3
      then compact_mantissa b div 256 ^ (3 - compact_exponent b)
      else compact_mantissa b * 256 ^ (compact_exponent b - 3))"

definition compact_negative :: "int \<Rightarrow> bool" where
  "compact_negative b = (compact_value b \<noteq> 0 \<and> b div 2 ^ 23 mod 2 = 1)"

definition compact_over_range :: "int \<Rightarrow> bool" where
  "compact_over_range b =
     (compact_value b \<noteq> 0 \<and>
      (compact_exponent b > 34
       \<or> (compact_exponent b > 33 \<and> compact_mantissa b > 0xff)
       \<or> (compact_exponent b > 32 \<and> compact_mantissa b > 0xffff)))"

text \<open>
  The over-range condition with the thresholds as the specification words them:
  base > 0xff with N > 34, base > 0xffff with N > 33, and N > 34 (base the 24-bit mantissa).
\<close>

definition claimed_over_range :: "int \<Rightarrow> bool" where
  "claimed_over_range b =
     (compact_value b \<noteq> 0 \<and>
      ((b mod 2 ^ 24 > 0xff \<and> compact_exponent b > 34)
       \<or> (b mod 2 ^ 24 > 0xffff \<and> compact_exponent b > 33)
       \<or> compact_exponent b > 34))"

text \<open>The two compositions the round-trip laws are about.\<close>

definition decode_after_encode :: "int \<Rightarrow> error + int" where
  "decode_after_encode t =
     (case target_to_bits t of Inl e \<Rightarrow> Inl e | Inr b \<Rightarrow> bits_to_target b)"

definition encode_after_decode :: "int \<Rightarrow> error + int" where
  "encode_after_decode b =
     (case bits_to_target b of Inl e \<Rightarrow> Inl e | Inr t \<Rightarrow> target_to_bits t)"

text \<open>
  What decoding the encoding of \<open>t\<close> gives, for \<open>t\<close> of byte length \<open>n\<close>: the bytes
  below the kept mantissa are cleared.
\<close>

definition trunc_target :: "nat \<Rightarrow> int \<Rightarrow> int" where
  "trunc_target n t =
     (if 8388608 \<le> t * 256 ^ 3 div 256 ^ n
      then (if n \<le> 2 then t else t div 256 ^ (n - 2) * 256 ^ (n - 2))
      else (if n \<le> 3 then t else t div 256 ^ (n - 3) * 256 ^ (n - 3)))"

section \<open>Network parameters\<close>

text \<open>
  \<^verbatim>\<open>constants.net\<close>, the class the module-level code reads its parameters from. The two
  checkpoint tables come from JSON files and \<^verbatim>\<open>AuxPowActivationHeight\<close> is read by
  \<^verbatim>\<open>blockchain.py\<close> but not declared in \<^verbatim>\<open>constants.py\<close>; they are parameters here.
  An entry of \<^verbatim>\<open>DGW_CHECKPOINTS\<close> is the pair of (hash, target) sentinels of one window.
\<close>

record net =
  TESTNET :: bool
  GENESIS :: string
  CHECKPOINTS :: "(string \<times> int) list"
  DGW_CHECKPOINTS :: "((string \<times> int) \<times> (string \<times> int)) list"
  DGW_CHECKPOINTS_SPACING :: int
  DGW_CHECKPOINTS_START :: int
  X16Rv2ActivationTS :: int
  KawpowActivationTS :: int
  KawpowActivationHeight :: int
  MeowpowActivationTS :: int
  nDGWActivationBlock :: int
  AuxPowActivationHeight :: int

definition MeowcoinMainnet ::
  "(string \<times> int) list \<Rightarrow> ((string \<times> int) \<times> (string \<times> int)) list \<Rightarrow> int \<Rightarrow> net" where
  "MeowcoinMainnet cps dgw_cps aux_height =
     \<lparr> TESTNET = False,
       GENESIS = ''000000edd819220359469c54f2614b5602ebc775ea67a64602f354bdaa320f70'',
       CHECKPOINTS = cps,
       DGW_CHECKPOINTS = dgw_cps,
       DGW_CHECKPOINTS_SPACING = 2016,
       DGW_CHECKPOINTS_START = 168 * 2016,
       X16Rv2ActivationTS = 1569945600,
       KawpowActivationTS = 1662493424,
       KawpowActivationHeight = 373,
       MeowpowActivationTS = 1710799200,
       nDGWActivationBlock = 373,
       AuxPowActivationHeight = aux_height \<rparr>"

definition MeowcoinTestnet ::
  "((string \<times> int) \<times> (string \<times> int)) list \<Rightarrow> int \<Rightarrow> net" where
  "MeowcoinTestnet dgw_cps aux_height =
     \<lparr> TESTNET = True,
       GENESIS = ''000000ecfc5e6324a079542221d00e10362bdc894d56500c414060eea8a3ad5a'',
       CHECKPOINTS = [],
       DGW_CHECKPOINTS = dgw_cps,
       DGW_CHECKPOINTS_SPACING = 2016,
       DGW_CHECKPOINTS_START = 0,
       X16Rv2ActivationTS = 1567533600,
       KawpowActivationTS = 1585159201,
       KawpowActivationHeight = 1,
       MeowpowActivationTS = 1585159200,
       nDGWActivationBlock = 1,
       AuxPowActivationHeight = aux_height \<rparr>"

definition max_legacy_checkpoint :: "net \<Rightarrow> int" where
  "max_legacy_checkpoint n = max 0 (int (length (CHECKPOINTS n)) * 2016 - 1)"

definition max_checkpoint :: "net \<Rightarrow> int" where
  "max_checkpoint n =
     max 0 (DGW_CHECKPOINTS_START n
            + int (length (DGW_CHECKPOINTS n)) * DGW_CHECKPOINTS_SPACING n - 1)"

section \<open>Hex text and byte strings\<close>

text \<open>
  Modelled from the spec: the helpers \<^verbatim>\<open>bfh\<close> (\<^verbatim>\<open>bytes.fromhex\<close>, from
  \<^verbatim>\<open>electrum/util.py\<close>) and \<^verbatim>\<open>int_to_hex\<close>, \<^verbatim>\<open>rev_hex\<close>, \<^verbatim>\<open>hash_encode\<close> (from
  \<^verbatim>\<open>electrum/bitcoin.py\<close>) are imported by \<^verbatim>\<open>blockchain.py\<close> but their files are not
  part of the sources at hand. The field layout of the specification fixes them: integers
  are little-endian, hash fields are big-endian text stored byte-reversed, and a byte is
  two lower-case hex digits.
\<close>

definition hex_digit :: "nat \<Rightarrow> char" where
  "hex_digit n = ''0123456789abcdef'' ! n"

definition hex_val :: "char \<Rightarrow> nat option" where
  "hex_val c = map_of
     [(CHR ''0'', 0), (CHR ''1'', 1), (CHR ''2'', 2), (CHR ''3'', 3), (CHR ''4'', 4),
      (CHR ''5'', 5), (CHR ''6'', 6), (CHR ''7'', 7), (CHR ''8'', 8), (CHR ''9'', 9),
      (CHR ''a'', 10), (CHR ''b'', 11), (CHR ''c'', 12), (CHR ''d'', 13), (CHR ''e'', 14),
      (CHR ''f'', 15), (CHR ''A'', 10), (CHR ''B'', 11), (CHR ''C'', 12), (CHR ''D'', 13),
      (CHR ''E'', 14), (CHR ''F'', 15)] c"

definition is_space :: "char \<Rightarrow> bool" where
  "is_space c = (c \<in> set [CHR '' '', CHR 0x09, CHR 0x0A, CHR 0x0B, CHR 0x0C, CHR 0x0D])"

text \<open>\<^verbatim>\<open>bytes.hex()\<close>.\<close>

definition hex_of_byte :: "byte \<Rightarrow> string" where
  "hex_of_byte b = [hex_digit (unat b div 16), hex_digit (unat b mod 16)]"

definition bytes_hex :: "bytes \<Rightarrow> string" where
  "bytes_hex bs = concat (map hex_of_byte bs)"

text \<open>
  \<^verbatim>\<open>bfh = bytes.fromhex\<close>: white space before a byte is skipped, a byte is two hex digits
  of either case, anything else raises ValueError.
\<close>

fun bfh :: "string \<Rightarrow> error + bytes" where
  "bfh [] = Inr []"
| "bfh [c] = (if is_space c then Inr [] else Inl ValueError)"
| "bfh (c # d # cs) =
     (if is_space c then bfh (d # cs)
      else case (hex_val c, hex_val d) of
             (Some hi, Some lo) \<Rightarrow>
               (case bfh cs of
                  Inl e \<Rightarrow> Inl e
                | Inr bs \<Rightarrow> Inr (word_of_nat (16 * hi + lo) # bs))
           | _ \<Rightarrow> Inl ValueError)"

text \<open>\<^verbatim>\<open>int(text, 16)\<close> on hex text: ValueError on the empty string and on any other character.\<close>

fun hex_digits_value :: "int \<Rightarrow> string \<Rightarrow> error + int" where
  "hex_digits_value acc [] = Inr acc"
| "hex_digits_value acc (c # cs) =
     (case hex_val c of
        None \<Rightarrow> Inl ValueError
      | Some v \<Rightarrow> hex_digits_value (acc * 16 + int v) cs)"

definition int_base16 :: "string \<Rightarrow> error + int" where
  "int_base16 s = (if s = [] then Inl ValueError else hex_digits_value 0 s)"

text \<open>\<^verbatim>\<open>int.from_bytes(b, byteorder='little')\<close>.\<close>

definition from_bytes_little :: "bytes \<Rightarrow> int" where
  "from_bytes_little bs = from_bytes_big (rev bs)"

text \<open>\<^verbatim>\<open>hash_encode(x) = x[::-1].hex()\<close> and \<^verbatim>\<open>rev_hex(s) = bfh(s)[::-1].hex()\<close>.\<close>

definition hash_encode :: "bytes \<Rightarrow> string" where
  "hash_encode x = bytes_hex (rev x)"

definition rev_hex :: "string \<Rightarrow> error + string" where
  "rev_hex s = (case bfh s of Inl e \<Rightarrow> Inl e | Inr bs \<Rightarrow> Inr (bytes_hex (rev bs)))"

text \<open>
  \<^verbatim>\<open>int_to_hex(i, length)\<close>: the little-endian hex of \<open>i\<close> on \<open>length\<close> bytes, two's
  complement for a negative \<open>i\<close>, OverflowError outside \<open>[-256^length/2, 256^length)\<close>.
\<close>

definition int_to_hex :: "int \<Rightarrow> nat \<Rightarrow> error + string" where
  "int_to_hex i len =
     (let range_size = 256 ^ len
      in if i < - (range_size div 2) \<or> i \<ge> range_size then Inl OverflowError
         else Inr (bytes_hex (rev (be_bytes len (if i < 0 then range_size + i else i)))))"

text \<open>The slice \<^verbatim>\<open>s[a:b]\<close> for \<open>0 \<le> a \<le> b\<close>, and \<^verbatim>\<open>s.ljust(n, c)\<close>.\<close>

definition slice :: "'a list \<Rightarrow> nat \<Rightarrow> nat \<Rightarrow> 'a list" where
  "slice s a b = take (b - a) (drop a s)"

definition ljust :: "string \<Rightarrow> nat \<Rightarrow> char \<Rightarrow> string" where
  "ljust s n c = s @ replicate (n - length s) c"

text \<open>Sequencing of computations that may raise.\<close>

definition bind_err :: "error + 'a \<Rightarrow> ('a \<Rightarrow> error + 'b) \<Rightarrow> error + 'b" where
  "bind_err m f = (case m of Inl e \<Rightarrow> Inl e | Inr x \<Rightarrow> f x)"

text \<open>\<^verbatim>\<open>d[key]\<close> on a dictionary: KeyError when the key is absent.\<close>

definition item :: "'a option \<Rightarrow> error + 'a" where
  "item v = (case v of None \<Rightarrow> Inl KeyError | Some x \<Rightarrow> Inr x)"

section \<open>Header codec\<close>

text \<open>
  A header is a Python dict with a fixed vocabulary of keys; an absent key is \<open>None\<close>.
  Hash fields are hex text, the other fields are integers.
\<close>

record header =
  version :: "int option"
  prev_block_hash :: "string option"
  merkle_root :: "string option"
  timestamp :: "int option"
  bits :: "int option"
  nheight :: "int option"
  nonce :: "int option"
  nonce64 :: "int option"
  mix_hash :: "string option"
  block_height :: "int option"

text \<open>\<^verbatim>\<open>version_int & (1 << 8)\<close> as a truth value.\<close>

definition version_bit8 :: "int \<Rightarrow> bool" where
  "version_bit8 v = (v AND push_bit 8 1 \<noteq> 0)"

text \<open>\<^verbatim>\<open>get_block_algo\<close>\<close>

datatype algo = Scrypt | Meowpow

definition get_block_algo :: "net \<Rightarrow> header \<Rightarrow> int \<Rightarrow> algo" where
  "get_block_algo n h height =
     (if height \<ge> AuxPowActivationHeight n
      then (let version_int = (case version h of None \<Rightarrow> 0 | Some v \<Rightarrow> v);
                is_auxpow = version_bit8 version_int
            in if is_auxpow then Scrypt else Meowpow)
      else Meowpow)"

text \<open>
  \<^verbatim>\<open>serialize_header\<close>. The format is chosen by the presence of the key \<^verbatim>\<open>nheight\<close>.
  The fields are converted left to right, so the first failing one decides the exception.
\<close>

definition serialize_header :: "header \<Rightarrow> error + string" where
  "serialize_header header_dict =
     (let is_meowpow_header = (nheight header_dict \<noteq> None);
          is_auxpow = (\<not> is_meowpow_header)
      in if is_meowpow_header
         then
           (let nonce_value =
                  (case nonce64 header_dict of
                     Some v \<Rightarrow> v
                   | None \<Rightarrow> (case nonce header_dict of Some v \<Rightarrow> v | None \<Rightarrow> 0))
            in bind_err (bind_err (item (version header_dict)) (\<lambda>v. int_to_hex v 4)) (\<lambda>s1.
               bind_err (bind_err (item (prev_block_hash header_dict)) rev_hex) (\<lambda>s2.
               bind_err (bind_err (item (merkle_root header_dict)) rev_hex) (\<lambda>s3.
               bind_err (bind_err (item (timestamp header_dict)) (\<lambda>v. int_to_hex v 4)) (\<lambda>s4.
               bind_err (bind_err (item (bits header_dict)) (\<lambda>v. int_to_hex v 4)) (\<lambda>s5.
               bind_err (bind_err (item (nheight header_dict)) (\<lambda>v. int_to_hex v 4)) (\<lambda>s6.
               bind_err (int_to_hex nonce_value 8) (\<lambda>s7.
               bind_err (bind_err (item (mix_hash header_dict)) rev_hex) (\<lambda>s8.
               Inr (s1 @ s2 @ s3 @ s4 @ s5 @ s6 @ s7 @ s8))))))))))
         else
           bind_err (bind_err (item (version header_dict)) (\<lambda>v. int_to_hex v 4)) (\<lambda>s1.
           bind_err (bind_err (item (prev_block_hash header_dict)) rev_hex) (\<lambda>s2.
           bind_err (bind_err (item (merkle_root header_dict)) rev_hex) (\<lambda>s3.
           bind_err (bind_err (item (timestamp header_dict)) (\<lambda>v. int_to_hex v 4)) (\<lambda>s4.
           bind_err (bind_err (item (bits header_dict)) (\<lambda>v. int_to_hex v 4)) (\<lambda>s5.
           bind_err (bind_err (item (nonce header_dict)) (\<lambda>v. int_to_hex v 4)) (\<lambda>s6.
           (let s = s1 @ s2 @ s3 @ s4 @ s5 @ s6
            in if \<not> is_auxpow then Inr (ljust s (HEADER_SIZE * 2) CHR ''0'') else Inr s))))))))"

text \<open>
  \<^verbatim>\<open>deserialize_header\<close>. The two branches of the 80-byte case differ only in a debug
  print, so they are one branch here.
\<close>

definition deserialize_header :: "net \<Rightarrow> bytes \<Rightarrow> int \<Rightarrow> error + header" where
  "deserialize_header n s height =
     (if s = [] then Inl (InvalidHeader EmptyHeader)
      else if length s \<noteq> LEGACY_HEADER_SIZE \<and> length s \<noteq> HEADER_SIZE
        then Inl (InvalidHeader BadHeaderLength)
      else
        bind_err (int_base16 (hash_encode (slice s 68 72))) (\<lambda>ts.
        bind_err (int_base16 (hash_encode (slice s 72 76))) (\<lambda>bts.
        (let version_int = from_bytes_little (slice s 0 4);
             h = \<lparr> version = Some version_int,
                   prev_block_hash = Some (hash_encode (slice s 4 36)),
                   merkle_root = Some (hash_encode (slice s 36 68)),
                   timestamp = Some ts,
                   bits = Some bts,
                   nheight = None, nonce = None, nonce64 = None, mix_hash = None,
                   block_height = None \<rparr>
         in bind_err
              (if length s = HEADER_SIZE
               then
                 (let is_auxpow_padded =
                        (height \<ge> AuxPowActivationHeight n \<and> version_bit8 version_int
                         \<and> drop LEGACY_HEADER_SIZE s
                             = replicate (HEADER_SIZE - LEGACY_HEADER_SIZE) 0)
                  in if \<not> is_auxpow_padded
                     then
                       bind_err (int_base16 (hash_encode (slice s 76 80))) (\<lambda>nh.
                       bind_err (int_base16 (hash_encode (slice s 80 88))) (\<lambda>nc.
                       Inr (h\<lparr> nheight := Some nh, nonce := Some nc,
                               mix_hash := Some (hash_encode (slice s 88 120)) \<rparr>)))
                     else
                       bind_err (int_base16 (hash_encode (slice s 76 80))) (\<lambda>nc.
                       Inr (h\<lparr> nonce := Some nc \<rparr>)))
               else
                 bind_err (int_base16 (hash_encode (slice s 76 80))) (\<lambda>nc.
                 Inr (h\<lparr> nonce := Some nc \<rparr>)))
              (\<lambda>h'. Inr (h'\<lparr> block_height := Some height \<rparr>))))))"

subsection \<open>The field layout of the specification\<close>

text \<open>
  The byte layout of a record as the specification tabulates it: little-endian integers,
  hash fields byte-reversed. Legacy and AuxPOW headers are \<open>[0..4)\<close> version, \<open>[4..36)\<close>
  previous hash, \<open>[36..68)\<close> merkle root, \<open>[68..72)\<close> timestamp, \<open>[72..76)\<close> bits,
  \<open>[76..80)\<close> nonce; extended headers carry the height in \<open>[76..80)\<close>, a 64-bit nonce in
  \<open>[80..88)\<close> and the mix hash in \<open>[88..120)\<close>. These definitions are what
  \<^const>\<open>serialize_header\<close> is compared with.
\<close>

definition le_bytes :: "nat \<Rightarrow> int \<Rightarrow> bytes" where
  "le_bytes len v = rev (be_bytes len v)"

definition hash_bytes :: "string \<Rightarrow> bytes" where
  "hash_bytes s = (case bfh s of Inl e \<Rightarrow> [] | Inr bs \<Rightarrow> rev bs)"

definition legacy_layout :: "int \<Rightarrow> string \<Rightarrow> string \<Rightarrow> int \<Rightarrow> int \<Rightarrow> int \<Rightarrow> bytes" where
  "legacy_layout v prev merkle ts b nc =
     le_bytes 4 v @ hash_bytes prev @ hash_bytes merkle @ le_bytes 4 ts @ le_bytes 4 b
     @ le_bytes 4 nc"

definition extended_layout ::
  "int \<Rightarrow> string \<Rightarrow> string \<Rightarrow> int \<Rightarrow> int \<Rightarrow> int \<Rightarrow> int \<Rightarrow> string \<Rightarrow> bytes" where
  "extended_layout v prev merkle ts b nh nc mix =
     le_bytes 4 v @ hash_bytes prev @ hash_bytes merkle @ le_bytes 4 ts @ le_bytes 4 b
     @ le_bytes 4 nh @ le_bytes 8 nc @ hash_bytes mix"

text \<open>The types of the data model: unsigned integers of a width, and 32-byte hashes as
  64 lower-case hex digits.\<close>

definition is_uint :: "nat \<Rightarrow> int \<Rightarrow> bool" where
  "is_uint w v = (0 \<le> v \<and> v < 2 ^ w)"

definition is_hash256 :: "string \<Rightarrow> bool" where
  "is_hash256 s =
     (case bfh s of Inl e \<Rightarrow> False | Inr bs \<Rightarrow> length bs = 32 \<and> bytes_hex bs = s)"

text \<open>Encoding a header dict and decoding the bytes again at the header's own height.\<close>

definition decode_encoded :: "net \<Rightarrow> header \<Rightarrow> error + header" where
  "decode_encoded n h =
     bind_err (serialize_header h) (\<lambda>s.
     bind_err (bfh s) (\<lambda>raw.
     bind_err (item (block_height h)) (\<lambda>height.
     deserialize_header n raw height)))"

text \<open>
  The extended headers that \<^const>\<open>deserialize_header\<close> reads back as padded AuxPOW records:
  at or after the activation height, version bit 8 set, and bytes \<open>[80..120)\<close> (nonce and
  mix hash) all zero.
\<close>

definition reads_as_padded_auxpow :: "net \<Rightarrow> int \<Rightarrow> int \<Rightarrow> int \<Rightarrow> string \<Rightarrow> bool" where
  "reads_as_padded_auxpow n v height nc mix =
     (height \<ge> AuxPowActivationHeight n \<and> version_bit8 v \<and> nc = 0
      \<and> hash_bytes mix = replicate 32 0)"

section \<open>Hash kernels\<close>

text \<open>
  The hash primitives are external pure functions (the modules \<^verbatim>\<open>x16r_hash\<close>,
  \<^verbatim>\<open>x16rv2_hash\<close>, \<^verbatim>\<open>kawpow\<close>, \<^verbatim>\<open>meowpow\<close>, \<^verbatim>\<open>crypto.sha256d\<close> and
  \<^verbatim>\<open>hashlib.scrypt\<close>); the engine is parameterised by them. \<open>scrypt k b\<close> stands for
  \<^verbatim>\<open>hashlib.scrypt(b, salt=b, n=1024, r=1, p=1, dklen=32)\<close>, which may raise.
\<close>

record kernels =
  x16r_getPoWHash :: "bytes \<Rightarrow> bytes"
  x16rv2_getPoWHash :: "bytes \<Rightarrow> bytes"
  kawpow_light_verify :: "bytes \<Rightarrow> bytes \<Rightarrow> int \<Rightarrow> bytes"
  meowpow_light_verify :: "bytes \<Rightarrow> bytes \<Rightarrow> int \<Rightarrow> bytes"
  sha256d :: "bytes \<Rightarrow> bytes"
  scrypt :: "bytes \<Rightarrow> error + bytes"

text \<open>
  The module-level probe that sets \<^verbatim>\<open>_SCRYPT_AVAILABLE\<close>: Scrypt is run once on 80 zero
  bytes; the flag is set when that returns 32 bytes and stays unset when it returns
  another length or raises.
\<close>

definition SCRYPT_AVAILABLE :: "kernels \<Rightarrow> bool" where
  "SCRYPT_AVAILABLE k =
     (case scrypt k (replicate 80 0) of
        Inl e \<Rightarrow> False
      | Inr test_result \<Rightarrow> length test_result = 32)"

definition hash_raw_header_v1 :: "kernels \<Rightarrow> string \<Rightarrow> error + string" where
  "hash_raw_header_v1 k hdr =
     bind_err (bfh hdr) (\<lambda>b. Inr (hash_encode (x16r_getPoWHash k (take 80 b))))"

definition hash_raw_header_v2 :: "kernels \<Rightarrow> string \<Rightarrow> error + string" where
  "hash_raw_header_v2 k hdr =
     bind_err (bfh hdr) (\<lambda>b. Inr (hash_encode (x16rv2_getPoWHash k (take 80 b))))"

definition revb :: "bytes \<Rightarrow> bytes" where
  "revb data = rev data"

text \<open>\<^verbatim>\<open>struct.unpack("< Q", b)[0]\<close>: exactly eight bytes, little-endian.\<close>

definition unpack_u64 :: "bytes \<Rightarrow> error + int" where
  "unpack_u64 b = (if length b = 8 then Inr (from_bytes_little b) else Inl StructError)"

definition kawpow_hash :: "kernels \<Rightarrow> bytes \<Rightarrow> error + bytes" where
  "kawpow_hash k hdr_bin =
     (let header_hash = revb (sha256d k (take 80 hdr_bin));
          mix = revb (slice hdr_bin 88 120)
      in bind_err (unpack_u64 (slice hdr_bin 80 88)) (\<lambda>nNonce64.
         Inr (revb (kawpow_light_verify k header_hash mix nNonce64))))"

definition hash_raw_header_kawpow :: "kernels \<Rightarrow> string \<Rightarrow> error + string" where
  "hash_raw_header_kawpow k hdr =
     bind_err (bfh hdr) (\<lambda>b. bind_err (kawpow_hash k b) (\<lambda>h. Inr (hash_encode h)))"

definition meowpow_hash :: "kernels \<Rightarrow> bytes \<Rightarrow> error + bytes" where
  "meowpow_hash k hdr_bin =
     (let header_hash = revb (sha256d k (take 80 hdr_bin));
          mix = revb (slice hdr_bin 88 120)
      in bind_err (unpack_u64 (slice hdr_bin 80 88)) (\<lambda>nNonce64.
         Inr (revb (meowpow_light_verify k header_hash mix nNonce64))))"

definition hash_raw_header_meowpow :: "kernels \<Rightarrow> string \<Rightarrow> error + string" where
  "hash_raw_header_meowpow k hdr =
     bind_err (bfh hdr) (\<lambda>b. bind_err (meowpow_hash k b) (\<lambda>h. Inr (hash_encode h)))"

text \<open>
  \<^verbatim>\<open>hash_raw_header_auxpow\<close>. Every \<^verbatim>\<open>except\<close> of the source returns a hash, so the
  function has no failing outcome: its result is a plain string.
\<close>

definition hash_raw_header_auxpow :: "kernels \<Rightarrow> string \<Rightarrow> string" where
  "hash_raw_header_auxpow k hdr =
     (case bfh hdr of
        Inl e \<Rightarrow> hash_encode (sha256d k (replicate 80 0))
      | Inr b \<Rightarrow>
          (let header_bytes = take 80 b
           in if \<not> SCRYPT_AVAILABLE k then hash_encode (sha256d k header_bytes)
              else
                (case scrypt k header_bytes of
                   Inl e \<Rightarrow> hash_encode (sha256d k header_bytes)
                 | Inr scrypt_hash \<Rightarrow>
                     if length scrypt_hash \<noteq> 32 then hash_encode (sha256d k header_bytes)
                     else hash_encode scrypt_hash)))"

text \<open>
  \<^verbatim>\<open>hash_header\<close>. The source stores the all-zero previous hash into the dict it was
  given when the key is absent; here the completed dict is local to the function.
\<close>

definition hash_header :: "net \<Rightarrow> kernels \<Rightarrow> header option \<Rightarrow> error + string" where
  "hash_header n k hdr =
     (case hdr of
        None \<Rightarrow> Inr (replicate 64 CHR ''0'')
      | Some h0 \<Rightarrow>
          (let h = (if prev_block_hash h0 = None
                    then h0\<lparr> prev_block_hash := Some (replicate 64 CHR ''0'') \<rparr> else h0);
               height = (case block_height h of None \<Rightarrow> 0 | Some x \<Rightarrow> x);
               version_int = (case version h of None \<Rightarrow> 0 | Some v \<Rightarrow> v);
               is_auxpow = (version_bit8 version_int \<and> height \<ge> AuxPowActivationHeight n)
           in if is_auxpow
              then bind_err (serialize_header h) (\<lambda>s. Inr (hash_raw_header_auxpow k s))
              else
                bind_err (item (timestamp h)) (\<lambda>ts.
                  if ts \<ge> KawpowActivationTS n \<and> ts < MeowpowActivationTS n
                  then bind_err (serialize_header h) (hash_raw_header_kawpow k)
                  else if ts \<ge> MeowpowActivationTS n
                  then bind_err (serialize_header h) (hash_raw_header_meowpow k)
                  else if ts \<ge> X16Rv2ActivationTS n
                  then bind_err (serialize_header h) (\<lambda>s. hash_raw_header_v2 k (take (80 * 2) s))
                  else bind_err (serialize_header h) (\<lambda>s. hash_raw_header_v1 k (take (80 * 2) s)))))"

section \<open>Header verifier\<close>

text \<open>Python truthiness of an optional string: \<^verbatim>\<open>None\<close> and \<^verbatim>\<open>''\<close> are false.\<close>

definition truthy :: "string option \<Rightarrow> bool" where
  "truthy s = (case s of None \<Rightarrow> False | Some x \<Rightarrow> x \<noteq> [])"

text \<open>\<^verbatim>\<open>Blockchain.verify_header\<close>; returning normally is \<open>Inr ()\<close>.\<close>

definition verify_header ::
  "net \<Rightarrow> kernels \<Rightarrow> header \<Rightarrow> string \<Rightarrow> int \<Rightarrow> string option \<Rightarrow> bool \<Rightarrow> error + unit" where
  "verify_header n k hdr prev target expected_header_hash skip_bits_check =
     (if Some prev \<noteq> prev_block_hash hdr then Inl (InvalidHeader PrevHashMismatch)
      else if TESTNET n then Inr ()
      else
        (let height = (case block_height hdr of None \<Rightarrow> 0 | Some x \<Rightarrow> x);
             version_int = (case version hdr of None \<Rightarrow> 0 | Some v \<Rightarrow> v);
             is_auxpow = (version_bit8 version_int \<and> height \<ge> AuxPowActivationHeight n)
         in if is_auxpow
            then
              (if truthy expected_header_hash
               then bind_err (hash_header n k (Some hdr)) (\<lambda>hash.
                      if expected_header_hash \<noteq> Some hash
                      then Inl (InvalidHeader HashMismatch) else Inr ())
               else Inr ())
            else
              (let should_validate_pow =
                     (if height > max_checkpoint n then height mod 10 = 0 else True)
               in if \<not> should_validate_pow then Inr ()
                  else
                    bind_err
                      (if \<not> skip_bits_check
                       then bind_err (target_to_bits target) (\<lambda>b.
                              if Some b \<noteq> bits hdr
                              then Inl (InvalidHeader BitsMismatch) else Inr ())
                       else Inr ())
                      (\<lambda>u.
                    bind_err (hash_header n k (Some hdr)) (\<lambda>hash.
                      if truthy expected_header_hash \<and> expected_header_hash \<noteq> Some hash
                      then Inl (InvalidHeader HashMismatch)
                      else
                        bind_err (bfh hash) (\<lambda>hb.
                          (let block_hash_as_num = from_bytes_big hb
                           in if block_hash_as_num > target
                              then Inl (InvalidHeader InsufficientPow)
                              else Inr ())))))))"

subsection \<open>Sample field values\<close>

text \<open>Concrete hashes used where a theorem is instantiated: the mainnet genesis hash and
  two arbitrary 32-byte values.\<close>

definition sample_prev_hash :: string where
  "sample_prev_hash = ''000000edd819220359469c54f2614b5602ebc775ea67a64602f354bdaa320f70''"

definition sample_merkle_root :: string where
  "sample_merkle_root = ''11223344556677889900aabbccddeeff11223344556677889900aabbccddeeff''"

definition sample_mix_hash :: string where
  "sample_mix_hash = ''0000000000000000000000000000000000000000000000000000000000000001''"

text \<open>
  Stand-ins for the external hash kernels on sample inputs: every proof-of-work kernel
  returns 32 bytes 0xff (the largest hash, above every target), SHA-256d returns 32 bytes
  0xaa, and Scrypt raises, as it does on a platform without it.
\<close>

definition sample_kernels :: kernels where
  "sample_kernels =
     \<lparr> x16r_getPoWHash = (\<lambda>b. replicate 32 0xff),
       x16rv2_getPoWHash = (\<lambda>b. replicate 32 0xff),
       kawpow_light_verify = (\<lambda>h m nn. replicate 32 0xff),
       meowpow_light_verify = (\<lambda>h m nn. replicate 32 0xff),
       sha256d = (\<lambda>b. replicate 32 0xaa),
       scrypt = (\<lambda>b. Inl OtherException) \<rparr>"

text \<open>A legacy header at height 5 of the x16r era and an AuxPOW header (version bit 8)
  at height 1000005, both linking to \<^const>\<open>sample_prev_hash\<close>.\<close>

definition sample_legacy_header :: header where
  "sample_legacy_header =
     \<lparr> version = Some 0x30000000, prev_block_hash = Some sample_prev_hash,
       merkle_root = Some sample_merkle_root, timestamp = Some 1500000000,
       bits = Some 0x1e00ffff, nheight = None, nonce = Some 7, nonce64 = None,
       mix_hash = None, block_height = Some 5 \<rparr>"

definition sample_auxpow_header :: header where
  "sample_auxpow_header =
     \<lparr> version = Some 0x30000100, prev_block_hash = Some sample_prev_hash,
       merkle_root = Some sample_merkle_root, timestamp = Some 1800000000,
       bits = Some 0x1e00ffff, nheight = None, nonce = Some 7, nonce64 = None,
       mix_hash = None, block_height = Some 1000005 \<rparr>"

section \<open>Chain store\<close>

text \<open>
  A \<^verbatim>\<open>Blockchain\<close> object: the height of its first header, its parent chain, the hash
  at the forkpoint (\<^verbatim>\<open>_forkpoint_hash\<close>), the hash before it (\<^verbatim>\<open>_prev_hash\<close>), the content
  of the backing file at \<^verbatim>\<open>path()\<close> (\<open>None\<close> when the file does not exist) and the cached
  record count \<^verbatim>\<open>_size\<close>. Reading functions follow the parent link; the chains they reach
  are not modified by them, so the parent is held by value.
\<close>

datatype blockchain =
  Blockchain (forkpoint: int) (parent: "blockchain option") (chain_forkpoint_hash: string)
    (chain_prev_hash: "string option") (headers_file: "bytes option") (cached_size: int)

definition chain_height :: "blockchain \<Rightarrow> int" where
  "chain_height c = forkpoint c + cached_size c - 1"

text \<open>\<^verbatim>\<open>Blockchain.read_header\<close>; the result \<open>Inr None\<close> is Python's \<^verbatim>\<open>None\<close>.\<close>

fun read_header :: "net \<Rightarrow> blockchain \<Rightarrow> int \<Rightarrow> error + header option" where
  "read_header n (Blockchain fp par fh ph file sz) height =
     (if height < 0 then Inr None
      else if height < fp
        then (case par of
                None \<Rightarrow> Inl AttributeError
              | Some p \<Rightarrow> read_header n p height)
      else if height > fp + sz - 1 then Inr None
      else
        (let delta = height - fp
         in case file of
              None \<Rightarrow> Inl FileNotFoundError
            | Some content \<Rightarrow>
                (let h = take HEADER_SIZE (drop (nat (delta * int HEADER_SIZE)) content)
                 in if length h < HEADER_SIZE then Inl OtherException
                    else if h = replicate HEADER_SIZE 0 then Inr None
                    else
                      (let h' =
                         (if height \<ge> AuxPowActivationHeight n \<and> length h = HEADER_SIZE
                             \<and> version_bit8 (from_bytes_little (slice h 0 4))
                             \<and> drop LEGACY_HEADER_SIZE h
                                 = replicate (HEADER_SIZE - LEGACY_HEADER_SIZE) 0
                          then take LEGACY_HEADER_SIZE h else h)
                       in bind_err (deserialize_header n h' height) (\<lambda>hd. Inr (Some hd))))))"

text \<open>Python list indexing \<^verbatim>\<open>xs[i]\<close>: a negative index counts from the end.\<close>

definition py_index :: "'a list \<Rightarrow> int \<Rightarrow> error + 'a" where
  "py_index xs i =
     (let len = int (length xs); j = (if i < 0 then len + i else i)
      in if 0 \<le> j \<and> j < len then Inr (xs ! nat j) else Inl IndexError)"

text \<open>\<^verbatim>\<open>Blockchain.is_dgw_height_checkpoint\<close>: \<open>Some 0\<close> for the first header of a window,
  \<open>Some 1\<close> for the last. The remainder by a zero spacing raises.\<close>

definition is_dgw_height_checkpoint :: "net \<Rightarrow> int \<Rightarrow> error + nat option" where
  "is_dgw_height_checkpoint n height =
     (if height < DGW_CHECKPOINTS_START n then Inr None
      else if height > max_checkpoint n then Inr None
      else if DGW_CHECKPOINTS_SPACING n = 0 then Inl ZeroDivisionError
      else
        (let height_mod = height mod DGW_CHECKPOINTS_SPACING n
         in if height_mod = 0 then Inr (Some 0)
            else if height_mod = DGW_CHECKPOINTS_SPACING n - 1 then Inr (Some 1)
            else Inr None))"

text \<open>The index \<^verbatim>\<open>height // SPACING - START // SPACING\<close> into \<^verbatim>\<open>DGW_CHECKPOINTS\<close> and the
  sentinel picked by \<^verbatim>\<open>[dgw_height_checkpoint]\<close>.\<close>

definition dgw_checkpoint_entry :: "net \<Rightarrow> int \<Rightarrow> nat \<Rightarrow> error + (string \<times> int)" where
  "dgw_checkpoint_entry n height which =
     (if DGW_CHECKPOINTS_SPACING n = 0 then Inl ZeroDivisionError
      else
        bind_err (py_index (DGW_CHECKPOINTS n)
                    (height div DGW_CHECKPOINTS_SPACING n
                     - DGW_CHECKPOINTS_START n div DGW_CHECKPOINTS_SPACING n))
          (\<lambda>pair. Inr (if which = 0 then fst pair else snd pair)))"

text \<open>\<^verbatim>\<open>Blockchain.get_hash\<close>\<close>

definition get_hash :: "net \<Rightarrow> kernels \<Rightarrow> blockchain \<Rightarrow> int \<Rightarrow> error + string" where
  "get_hash n k c height =
     bind_err (is_dgw_height_checkpoint n height) (\<lambda>dgw_height_checkpoint.
       if height = - 1 then Inr (replicate 64 CHR ''0'')
       else if height = 0 then Inr (GENESIS n)
       else if height \<le> max_legacy_checkpoint n \<and> (height + 1) mod 2016 = 0
         then bind_err (py_index (CHECKPOINTS n) (height div 2016)) (\<lambda>(h, t). Inr h)
       else (case dgw_height_checkpoint of
               Some which \<Rightarrow>
                 bind_err (dgw_checkpoint_entry n height which) (\<lambda>(h, t). Inr h)
             | None \<Rightarrow>
                 bind_err (read_header n c height) (\<lambda>hdr.
                   case hdr of
                     None \<Rightarrow> Inl (MissingHeader height)
                   | Some h \<Rightarrow> hash_header n k (Some h))))"

section \<open>Retarget engines\<close>

text \<open>
  The optional \<^verbatim>\<open>chain\<close> argument is a dict from heights to headers of the chunk being
  verified; an association list here, \<open>None\<close> for Python's \<^verbatim>\<open>None\<close>.
\<close>

type_synonym header_cache = "(int \<times> header) list option"

definition cache_truthy :: "header_cache \<Rightarrow> bool" where
  "cache_truthy chain = (case chain of None \<Rightarrow> False | Some kvs \<Rightarrow> kvs \<noteq> [])"

definition cache_get :: "header_cache \<Rightarrow> int \<Rightarrow> header option" where
  "cache_get chain h = (case chain of None \<Rightarrow> None | Some kvs \<Rightarrow> map_of kvs h)"

text \<open>The empty dict, which Python treats as false.\<close>

definition empty_header :: header where
  "empty_header =
     \<lparr> version = None, prev_block_hash = None, merkle_root = None, timestamp = None,
       bits = None, nheight = None, nonce = None, nonce64 = None, mix_hash = None,
       block_height = None \<rparr>"

text \<open>
  \<^verbatim>\<open>convbignum\<close>. With an exponent byte below 3 the source computes \<^verbatim>\<open>pow(2, negative)\<close>,
  a float; the model does not follow floating point and stops with an outcome of its
  own there.
\<close>

definition convbignum :: "int option \<Rightarrow> error + int" where
  "convbignum bts =
     (case bts of
        None \<Rightarrow> Inl TypeError
      | Some b \<Rightarrow>
          (let MM = 256 * 256 * 256;
               a = b mod MM;
               a' = (if a < 0x8000 then a * 256 else a)
           in if b div MM - 3 < 0 then Inl FloatArithmetic
              else Inr (a' * 2 ^ nat (8 * (b div MM - 3)))))"

text \<open>\<^verbatim>\<open>get_block_reading_from_height\<close> of \<^verbatim>\<open>get_target_dgwv3\<close>: the cache lookup is inside a
  \<^verbatim>\<open>try\<close>, the read is not.\<close>

definition dgw_block_reading ::
  "net \<Rightarrow> blockchain \<Rightarrow> header_cache \<Rightarrow> int \<Rightarrow> error + header" where
  "dgw_block_reading n c chain height =
     (case cache_get chain height of
        Some found \<Rightarrow> Inr found
      | None \<Rightarrow>
          bind_err (read_header n c height) (\<lambda>found.
            case found of None \<Rightarrow> Inl NotEnoughHeaders | Some h \<Rightarrow> Inr h))"

text \<open>
  The loop state of \<^verbatim>\<open>get_target_dgwv3\<close>: \<^verbatim>\<open>BlockReading\<close>, \<^verbatim>\<open>nActualTimespan\<close>,
  \<^verbatim>\<open>LastBlockTime\<close> (an integer, or \<^verbatim>\<open>None\<close> once a header without timestamp was read),
  \<^verbatim>\<open>CountBlocks\<close>, \<^verbatim>\<open>PastDifficultyAverage\<close> and \<^verbatim>\<open>PastDifficultyAveragePrev\<close>.
\<close>

record dgw_state =
  BlockReading :: header
  nActualTimespan :: int
  LastBlockTime :: "int option"
  CountBlocks :: int
  PastDifficultyAverage :: int
  PastDifficultyAveragePrev :: int

definition dgw_step ::
  "net \<Rightarrow> blockchain \<Rightarrow> header_cache \<Rightarrow> int \<Rightarrow> dgw_state \<Rightarrow> error + dgw_state" where
  "dgw_step n c chain height st =
     (let count = CountBlocks st + 1
      in bind_err
           (if count \<le> int DGW_PASTBLOCKS
            then bind_err (convbignum (bits (BlockReading st))) (\<lambda>bnNum.
                   Inr (if count = 1 then bnNum
                        else (PastDifficultyAveragePrev st * count + bnNum) div (count + 1)))
            else Inr (PastDifficultyAverage st))
           (\<lambda>avg.
         bind_err
           (case LastBlockTime st of
              None \<Rightarrow> Inl TypeError
            | Some lbt \<Rightarrow>
                if lbt > 0
                then (case timestamp (BlockReading st) of
                        None \<Rightarrow> Inl TypeError
                      | Some ts \<Rightarrow> Inr (nActualTimespan st + (lbt - ts)))
                else Inr (nActualTimespan st))
           (\<lambda>span.
         bind_err (dgw_block_reading n c chain ((height - 1) - count)) (\<lambda>nxt.
           Inr \<lparr> BlockReading = nxt, nActualTimespan = span,
                 LastBlockTime = timestamp (BlockReading st), CountBlocks = count,
                 PastDifficultyAverage = avg,
                 PastDifficultyAveragePrev =
                   (if count \<le> int DGW_PASTBLOCKS then avg
                    else PastDifficultyAveragePrev st) \<rparr>))))"

fun dgw_loop ::
  "net \<Rightarrow> blockchain \<Rightarrow> header_cache \<Rightarrow> int \<Rightarrow> nat \<Rightarrow> dgw_state \<Rightarrow> error + dgw_state" where
  "dgw_loop n c chain height 0 st = Inr st"
| "dgw_loop n c chain height (Suc i) st =
     bind_err (dgw_step n c chain height st) (dgw_loop n c chain height i)"

text \<open>\<^verbatim>\<open>Blockchain.get_target_dgwv3\<close>\<close>

definition get_target_dgwv3 :: "net \<Rightarrow> blockchain \<Rightarrow> int \<Rightarrow> header_cache \<Rightarrow> error + int" where
  "get_target_dgwv3 n c height chain =
     bind_err (dgw_block_reading n c chain (height - 1)) (\<lambda>first.
     bind_err (dgw_loop n c chain height DGW_PASTBLOCKS
                 \<lparr> BlockReading = first, nActualTimespan = 0, LastBlockTime = Some 0,
                   CountBlocks = 0, PastDifficultyAverage = 0,
                   PastDifficultyAveragePrev = 0 \<rparr>) (\<lambda>st.
       (let bnNew = PastDifficultyAverage st;
            nTargetTimespan = CountBlocks st * 60;
            span1 = max (nActualTimespan st) (nTargetTimespan div 3);
            span2 = min span1 (nTargetTimespan * 3)
        in Inr (min (bnNew * span2 div nTargetTimespan) MAX_TARGET))))"

text \<open>\<^verbatim>\<open>get_block_reading_from_height\<close> of \<^verbatim>\<open>get_target_lwma_multi_algo\<close>: both lookups are
  inside a \<^verbatim>\<open>try\<close>; a header found nowhere raises NotEnoughHeaders.\<close>

definition lwma_block_reading ::
  "net \<Rightarrow> blockchain \<Rightarrow> header_cache \<Rightarrow> int \<Rightarrow> error + header" where
  "lwma_block_reading n c chain h =
     (case (if cache_truthy chain then cache_get chain h else None) of
        Some found \<Rightarrow> Inr found
      | None \<Rightarrow>
          (case read_header n c h of
             Inr (Some found) \<Rightarrow> Inr found
           | _ \<Rightarrow> Inl NotEnoughHeaders))"

text \<open>\<^verbatim>\<open>range(start, stop, -1)\<close>\<close>

definition range_down :: "int \<Rightarrow> int \<Rightarrow> int list" where
  "range_down start stop = map (\<lambda>i. start - int i) [0..<nat (start - stop)]"

text \<open>
  The collecting loop of \<^verbatim>\<open>get_target_lwma_multi_algo\<close> over the heights still to visit:
  it stops when \<open>N + 1\<close> blocks are collected, at a negative height, and at the first
  height whose header cannot be read.
\<close>

fun lwma_collect ::
  "net \<Rightarrow> blockchain \<Rightarrow> header_cache \<Rightarrow> algo \<Rightarrow> header list \<Rightarrow> int list \<Rightarrow> header list" where
  "lwma_collect n c chain current_algo same_algo_blocks [] = same_algo_blocks"
| "lwma_collect n c chain current_algo same_algo_blocks (h # hs) =
     (if length same_algo_blocks \<ge> LWMA_AVERAGING_WINDOW + 1 then same_algo_blocks
      else if h < 0 then same_algo_blocks
      else (case lwma_block_reading n c chain h of
              Inl e \<Rightarrow> same_algo_blocks
            | Inr blk \<Rightarrow>
                if get_block_algo n blk h = current_algo
                then lwma_collect n c chain current_algo (same_algo_blocks @ [blk]) hs
                else lwma_collect n c chain current_algo same_algo_blocks hs))"

text \<open>The heights the loop ranges over.\<close>

definition lwma_walk :: "int \<Rightarrow> int list" where
  "lwma_walk height =
     (let search_limit = min (height - 1) (int LWMA_AVERAGING_WINDOW * 10)
      in range_down (height - 1) (max (- 1) (height - 1 - search_limit - 1)))"

text \<open>The summation loop \<^verbatim>\<open>for i in range(1, N + 1)\<close>, over the remaining indices; the
  state is \<^verbatim>\<open>(sum_targets, sum_weighted_solvetimes, prev_time)\<close>.\<close>

fun lwma_sum ::
  "header list \<Rightarrow> int \<Rightarrow> nat list \<Rightarrow> int \<times> int \<times> int \<Rightarrow> error + (int \<times> int \<times> int)" where
  "lwma_sum blocks T [] st = Inr st"
| "lwma_sum blocks T (i # rest) (sum_targets, sum_weighted_solvetimes, prev_time) =
     bind_err (py_index blocks (int i)) (\<lambda>blk.
     bind_err (item (timestamp blk)) (\<lambda>ts0.
       (let ts = (if ts0 \<le> prev_time then prev_time + 1 else ts0);
            solve_time = max 1 (min (ts - prev_time) (6 * T))
        in bind_err (bind_err (item (bits blk)) bits_to_target) (\<lambda>blk_target.
             lwma_sum blocks T rest
               (sum_targets + blk_target, sum_weighted_solvetimes + int i * solve_time, ts)))))"

text \<open>\<^verbatim>\<open>Blockchain.get_target_lwma_multi_algo\<close>\<close>

definition get_target_lwma_multi_algo ::
  "net \<Rightarrow> blockchain \<Rightarrow> int \<Rightarrow> header_cache \<Rightarrow> error + int" where
  "get_target_lwma_multi_algo n c height chain =
     (case (if cache_truthy chain then cache_get chain height else None) of
        None \<Rightarrow> Inl NotEnoughHeaders
      | Some current_header \<Rightarrow>
          if current_header = empty_header then Inl NotEnoughHeaders
          else
            (let current_algo = get_block_algo n current_header height;
                 N = LWMA_AVERAGING_WINDOW;
                 aux_active = (height \<ge> AuxPowActivationHeight n);
                 ALGOS = (if aux_active then 2 else 1);
                 T = POW_TARGET_SPACING * ALGOS;
                 pow_limit = (if current_algo = Scrypt then SCRYPT_LIMIT else MEOWPOW_LIMIT);
                 same_algo_blocks = lwma_collect n c chain current_algo [] (lwma_walk height)
             in if length same_algo_blocks < N + 1 then Inl NotEnoughHeaders
                else
                  (let blocks = rev same_algo_blocks
                   in bind_err (py_index blocks 0) (\<lambda>first.
                      bind_err (item (timestamp first)) (\<lambda>prev_time.
                      bind_err (lwma_sum blocks T [1..<N + 1] (0, 0, prev_time))
                        (\<lambda>(sum_targets, sum_weighted_solvetimes, last_time).
                          (let avg_target = sum_targets div int N;
                               kk = int N * (int N + 1) * T div 2;
                               next_target = min (avg_target * sum_weighted_solvetimes div kk)
                                               pow_limit
                           in bind_err (target_to_bits next_target) (\<lambda>next_bits.
                                Inr next_target))))))))"

text \<open>\<^verbatim>\<open>Blockchain.get_target\<close>\<close>

definition get_target :: "net \<Rightarrow> blockchain \<Rightarrow> int \<Rightarrow> header_cache \<Rightarrow> error + int" where
  "get_target n c height chain =
     bind_err (is_dgw_height_checkpoint n height) (\<lambda>dgw_height_checkpoint.
       if TESTNET n then Inr 0
       else if height < nDGWActivationBlock n
         then bind_err (py_index (CHECKPOINTS n) (height div 2016)) (\<lambda>(h, t). Inr t)
       else (case dgw_height_checkpoint of
               Some which \<Rightarrow>
                 bind_err (dgw_checkpoint_entry n height which) (\<lambda>(h, t). Inr t)
             | None \<Rightarrow>
                 if \<not> TESTNET n \<and> 373 \<le> height \<and> height < 373 + 180 then Inr KAWPOW_LIMIT
                 else if \<not> TESTNET n \<and> 801212 \<le> height \<and> height < 801212 + 180
                   then Inr MEOWPOW_LIMIT
                 else if height \<le> chain_height c
                   then bind_err (read_header n c height) (\<lambda>hdr.
                          case hdr of
                            None \<Rightarrow> Inl TypeError
                          | Some h \<Rightarrow> bind_err (item (bits h)) bits_to_target)
                 else if height \<ge> AuxPowActivationHeight n
                   then get_target_lwma_multi_algo n c height chain
                 else get_target_dgwv3 n c height chain))"


text \<open>A main chain with no header file yet, and a one-entry cache holding the sample
  AuxPOW header as the candidate at height 1000005.\<close>

definition sample_empty_chain :: blockchain where
  "sample_empty_chain = Blockchain 0 None sample_prev_hash None None 0"


section \<open>Chunk ingestion\<close>

text \<open>The record length the chunk decoders expect at offset \<open>p\<close> for height \<open>s\<close>.\<close>

definition chunk_header_len :: "net \<Rightarrow> bytes \<Rightarrow> nat \<Rightarrow> int \<Rightarrow> nat" where
  "chunk_header_len n data p s =
     (if s \<ge> AuxPowActivationHeight n
      then (let version_int = from_bytes_little (slice data p (p + 4));
                is_auxpow = version_bit8 version_int
            in if is_auxpow then LEGACY_HEADER_SIZE else HEADER_SIZE)
      else if s \<ge> KawpowActivationHeight n then HEADER_SIZE
      else LEGACY_HEADER_SIZE)"

text \<open>
  One pass of the \<^verbatim>\<open>while\<close> loop of \<^verbatim>\<open>verify_chunk\<close> after the record \<open>raw\<close> was cut and
  \<open>p\<close> advanced: the new \<^verbatim>\<open>prev_hash\<close> and \<^verbatim>\<open>headers\<close> dict, or the exception raised.
  The logging of the \<^verbatim>\<open>except InvalidHeader\<close> handler re-raises and is left out.
\<close>

definition verify_chunk_body ::
  "net \<Rightarrow> kernels \<Rightarrow> blockchain \<Rightarrow> bytes \<Rightarrow> nat \<Rightarrow> int \<Rightarrow> string \<Rightarrow> (int \<times> header) list \<Rightarrow> bytes
   \<Rightarrow> error + (string \<times> (int \<times> header) list)" where
  "verify_chunk_body n k c data p s prev headers raw =
     bind_err (case get_hash n k c s of
                 Inl (MissingHeader x) \<Rightarrow> Inr None
               | Inl e \<Rightarrow> Inl e
               | Inr h \<Rightarrow> Inr (Some h)) (\<lambda>expected_header_hash.
     if length raw \<noteq> LEGACY_HEADER_SIZE \<and> length raw \<noteq> HEADER_SIZE then Inl OtherException
     else
     bind_err (deserialize_header n raw s) (\<lambda>hdr.
       (let headers' = (s, hdr) # headers
        in bind_err
             (if DGW_CHECKPOINTS_START n \<le> s \<and> s \<le> max_checkpoint n
              then bind_err (is_dgw_height_checkpoint n s) (\<lambda>dgw.
                     if dgw \<noteq> None
                     then (case get_target n c s (Some headers') of
                             Inl NotEnoughHeaders \<Rightarrow>
                               bind_err (bind_err (item (bits hdr)) bits_to_target)
                                 (\<lambda>t. Inr (t, True))
                           | Inl e \<Rightarrow> Inl e
                           | Inr t \<Rightarrow> Inr (t, False))
                     else bind_err (bind_err (item (bits hdr)) bits_to_target)
                            (\<lambda>t. Inr (t, False)))
              else bind_err (bind_err (item (bits hdr)) bits_to_target) (\<lambda>t. Inr (t, True)))
             (\<lambda>(target, skip_bits_check).
           bind_err (verify_header n k hdr prev target expected_header_hash skip_bits_check)
             (\<lambda>u.
           bind_err
             (if s > max_checkpoint n \<and> int p < int (length data) - 36
              then Inr (hash_encode (slice data (p + 4) (p + 36)))
              else hash_header n k (Some hdr))
             (\<lambda>prev'. Inr (prev', headers')))))))"

text \<open>The \<^verbatim>\<open>while p < len(data)\<close> loop; it returns the height after the last record it
  processed. An incomplete record at the end stops it.\<close>

function verify_chunk_loop ::
  "net \<Rightarrow> kernels \<Rightarrow> blockchain \<Rightarrow> bytes \<Rightarrow> nat \<Rightarrow> int \<Rightarrow> string \<Rightarrow> (int \<times> header) list
   \<Rightarrow> error + int" where
  "verify_chunk_loop n k c data p s prev headers =
     (if p < length data
      then (if length (slice data p (p + chunk_header_len n data p s))
                 < chunk_header_len n data p s
            then Inr s
            else bind_err
                   (verify_chunk_body n k c data (p + chunk_header_len n data p s) s prev
                      headers (slice data p (p + chunk_header_len n data p s)))
                   (\<lambda>r. verify_chunk_loop n k c data (p + chunk_header_len n data p s)
                          (s + 1) (fst r) (snd r)))
      else Inr s)"
  by pat_completeness auto
termination
  by (relation "measure (\<lambda>(n, k, c, data, p, s, prev, headers). length data - p)")
     (auto simp: chunk_header_len_def LEGACY_HEADER_SIZE_def HEADER_SIZE_def Let_def)

text \<open>\<^verbatim>\<open>Blockchain.verify_chunk\<close>\<close>

definition verify_chunk :: "net \<Rightarrow> kernels \<Rightarrow> blockchain \<Rightarrow> int \<Rightarrow> bytes \<Rightarrow> error + unit" where
  "verify_chunk n k c start_height data =
     bind_err (get_hash n k c (start_height - 1)) (\<lambda>prev.
     bind_err (verify_chunk_loop n k c data 0 start_height prev []) (\<lambda>s.
       (let processed_headers = s - start_height
        in if DGW_CHECKPOINTS_START n \<le> start_height \<and> start_height \<le> max_checkpoint n
           then (if DGW_CHECKPOINTS_SPACING n = 0 then Inl ZeroDivisionError
                 else if start_height mod DGW_CHECKPOINTS_SPACING n \<noteq> 0
                   then Inl AssertionError
                 else if processed_headers \<noteq> DGW_CHECKPOINTS_SPACING n
                   then Inl AssertionError
                 else Inr ())
           else Inr ())))"

text \<open>
  Writing to a file at an offset: \<^verbatim>\<open>f.seek(offset); f.truncate()\<close> cuts the file there (or
  extends it with zero bytes), and \<^verbatim>\<open>f.seek(offset); f.write(data)\<close> overwrites from the
  offset on, zero-filling a gap.
\<close>

definition file_truncate :: "bytes \<Rightarrow> nat \<Rightarrow> bytes" where
  "file_truncate content offset = take offset content @ replicate (offset - length content) 0"

definition file_write_at :: "bytes \<Rightarrow> nat \<Rightarrow> bytes \<Rightarrow> bytes" where
  "file_write_at content offset data =
     file_truncate content offset @ data @ drop (offset + length data) content"

text \<open>\<^verbatim>\<open>Blockchain.update_size\<close>\<close>

definition update_size :: "blockchain \<Rightarrow> blockchain" where
  "update_size c =
     (case c of Blockchain fp par fh ph file sz \<Rightarrow>
        Blockchain fp par fh ph file
          (case file of None \<Rightarrow> 0 | Some content \<Rightarrow> int (length content) div int HEADER_SIZE))"

text \<open>
  \<^verbatim>\<open>Blockchain.write\<close>: the outcome and the chain as the call leaves it. The offset is a
  non-negative byte count at every call site.
\<close>

definition write_file ::
  "blockchain \<Rightarrow> bytes \<Rightarrow> nat \<Rightarrow> bool \<Rightarrow> (error + unit) \<times> blockchain" where
  "write_file c data offset truncate_flag =
     (case c of Blockchain fp par fh ph file sz \<Rightarrow>
        (case file of
           None \<Rightarrow> (Inl FileNotFoundError, c)
         | Some content \<Rightarrow>
             (let content1 = (if truncate_flag \<and> int offset \<noteq> sz * int HEADER_SIZE
                              then file_truncate content offset else content);
                  content2 = file_write_at content1 offset data
              in (Inr (), update_size (Blockchain fp par fh ph (Some content2) sz)))))"

text \<open>\<^verbatim>\<open>convert_to_kawpow_len\<close> of \<^verbatim>\<open>save_chunk\<close>: every record padded to 120 bytes.\<close>

function convert_loop :: "net \<Rightarrow> bytes \<Rightarrow> nat \<Rightarrow> int \<Rightarrow> bytes \<Rightarrow> bytes" where
  "convert_loop n chunk p s r =
     (if p < length chunk
      then convert_loop n chunk (p + chunk_header_len n chunk p s) (s + 1)
             (if chunk_header_len n chunk p s = LEGACY_HEADER_SIZE
              then r @ slice chunk p (p + chunk_header_len n chunk p s) @ replicate 40 0
              else r @ slice chunk p (p + chunk_header_len n chunk p s))
      else r)"
  by pat_completeness auto
termination
  by (relation "measure (\<lambda>(n, chunk, p, s, r). length chunk - p)")
     (auto simp: chunk_header_len_def LEGACY_HEADER_SIZE_def HEADER_SIZE_def Let_def)

definition convert_to_kawpow_len :: "net \<Rightarrow> int \<Rightarrow> bytes \<Rightarrow> error + bytes" where
  "convert_to_kawpow_len n start_height chunk =
     (let r = convert_loop n chunk 0 start_height []
      in if length r mod HEADER_SIZE \<noteq> 0 then Inl OtherException else Inr r)"

text \<open>
  \<^verbatim>\<open>Blockchain.save_chunk\<close> for a chain without parent (the main chain): the outcome and
  the chain as the call leaves it. For such a chain the delegation to the main chain is
  not taken and \<^verbatim>\<open>swap_with_parent\<close> returns at once. A chain with a parent writes through
  the registry of chains, which this model does not hold; that case is reported as
  an outcome of its own and no theorem below is about it.
\<close>

definition save_chunk ::
  "net \<Rightarrow> blockchain \<Rightarrow> int \<Rightarrow> bytes \<Rightarrow> (error + unit) \<times> blockchain" where
  "save_chunk n c start_height chunk0 =
     (if start_height < 0 then (Inl AssertionError, c)
      else if parent c \<noteq> None then (Inl OtherException, c)
      else
        (let chunk_within_checkpoint_region = (start_height \<le> max_checkpoint n);
             delta_height = start_height - forkpoint c;
             delta_bytes0 = delta_height * int HEADER_SIZE;
             chunk1 = (if delta_bytes0 < 0 then drop (nat (- delta_bytes0)) chunk0 else chunk0);
             delta_bytes = (if delta_bytes0 < 0 then 0 else delta_bytes0);
             truncate_flag = (\<not> chunk_within_checkpoint_region)
         in case convert_to_kawpow_len n start_height chunk1 of
              Inl e \<Rightarrow> (Inl e, c)
            | Inr chunk \<Rightarrow>
                (case write_file c chunk (nat delta_bytes) truncate_flag of
                   (Inl e, c1) \<Rightarrow> (Inl e, c1)
                 | (Inr u, c1) \<Rightarrow>
                     (case read_header n c1 start_height of
                        Inl e \<Rightarrow> (Inl e, c1)
                      | Inr saved_header \<Rightarrow>
                          (case deserialize_header n (take HEADER_SIZE chunk) start_height of
                             Inl e \<Rightarrow> (Inl e, c1)
                           | Inr expected_header \<Rightarrow>
                               if saved_header = None then (Inl AttributeError, c1)
                               else if saved_header \<noteq> Some expected_header
                                 then (Inl AssertionError, c1)
                               else (Inr (), c1))))))"

text \<open>
  \<^verbatim>\<open>Blockchain.connect_chunk\<close>: the assertion on the height is outside the \<^verbatim>\<open>try\<close>; inside
  it every exception becomes the result \<open>False\<close>. The chain is returned as the call leaves
  it.
\<close>

definition connect_chunk ::
  "net \<Rightarrow> kernels \<Rightarrow> blockchain \<Rightarrow> int \<Rightarrow> string \<Rightarrow> error + (bool \<times> blockchain)" where
  "connect_chunk n k c start_height hexdata =
     (if start_height < 0 then Inl AssertionError
      else
        (case bfh hexdata of
           Inl e \<Rightarrow> Inr (False, c)
         | Inr data \<Rightarrow>
             (case verify_chunk n k c start_height data of
                Inl e \<Rightarrow> Inr (False, c)
              | Inr u \<Rightarrow>
                  (case save_chunk n c start_height data of
                     (Inl e, c1) \<Rightarrow> Inr (False, c1)
                   | (Inr u', c1) \<Rightarrow> Inr (True, c1)))))"

section \<open>Target arithmetic: proofs\<close>

lemma div_lt_int:
  assumes "0 < (d::int)" "t < n * d" shows "t div d < n"
proof (rule ccontr)
  assume "\<not> t div d < n"
  then have "n \<le> t div d" by simp
  then have "n * d \<le> (t div d) * d" using assms(1) by (simp add: mult_right_mono)
  moreover have "(t div d) * d \<le> t"
    using div_mult_mod_eq[of t d] pos_mod_sign[OF assms(1), of t] by linarith
  ultimately show False using assms(2) by linarith
qed

lemma le_div_int:
  assumes "0 < (d::int)" "n * d \<le> t" shows "n \<le> t div d"
proof -
  have "(n * d) div d \<le> t div d" using assms by (intro zdiv_mono1) simp_all
  then show ?thesis using assms(1) by simp
qed

lemma and_ff: "(x::int) AND 0xff = x mod 256"
  using take_bit_eq_mask[of 8 x] by (simp add: take_bit_eq_mod mask_eq_exp_minus_1)

lemma and_7fffff: "(x::int) AND 0x7fffff = x mod 8388608"
  using take_bit_eq_mask[of 23 x] by (simp add: take_bit_eq_mod mask_eq_exp_minus_1)

lemma and_800000: "((x::int) AND 0x800000 \<noteq> 0) = (x div 8388608 mod 2 = 1)"
  using and_exp_eq_0_iff_not_bit[of x 23] by (simp add: bit_iff_odd odd_iff_mod_2_eq_one)

lemma or_add: 
  assumes "0 \<le> b" "b < 2 ^ n" shows "push_bit n (a::int) OR b = a * 2 ^ n + b"
proof -
  have tb: "take_bit n b = b" using assms by (simp add: take_bit_int_eq_self)
  have "push_bit n a AND take_bit n b = 0"
    by (rule bit_eqI) (auto simp: bit_and_iff bit_push_bit_iff bit_take_bit_iff)
  then have "push_bit n a AND b = 0" by (simp add: tb)
  then have "push_bit n a + b = push_bit n a OR b" by (rule disjunctive_add_eq_or)
  then show ?thesis by (simp add: push_bit_eq_mult)
qed

lemma from_bytes_big_foldl:
  "foldl (\<lambda>acc b. acc * 256 + uint (b::byte)) a bs = a * 256 ^ length bs + from_bytes_big bs"
proof (induction bs arbitrary: a)
  case Nil
  show ?case by (simp add: from_bytes_big_def)
next
  case (Cons b bs)
  have "foldl (\<lambda>acc b. acc * 256 + uint b) a (b # bs)
        = (a * 256 + uint b) * 256 ^ length bs + from_bytes_big bs"
    using Cons.IH[of "a * 256 + uint b"] by simp
  moreover have "from_bytes_big (b # bs) = uint b * 256 ^ length bs + from_bytes_big bs"
    using Cons.IH[of "uint b"] by (simp add: from_bytes_big_def)
  ultimately show ?case by (simp add: algebra_simps)
qed

lemma from_bytes_big_Cons:
  "from_bytes_big (b # bs) = uint b * 256 ^ length bs + from_bytes_big bs"
  using from_bytes_big_foldl[of "uint b" bs] by (simp add: from_bytes_big_def)

lemma from_bytes_big_Nil: "from_bytes_big [] = 0"
  by (simp add: from_bytes_big_def)

lemma length_be_bytes: "length (be_bytes k t) = k"
  by (induction k) simp_all

lemma uint_byte_of_int: "uint (word_of_int x :: byte) = x mod 256"
  by (simp add: uint_word_of_int)

lemma from_bytes_big_be_bytes: "from_bytes_big (be_bytes k t) = t mod 256 ^ k"
proof (induction k)
  case 0
  show ?case by (simp add: from_bytes_big_Nil)
next
  case (Suc k)
  have "t mod (256 ^ k * 256) = 256 ^ k * (t div 256 ^ k mod 256) + t mod 256 ^ k"
    by (rule zmod_zmult2_eq) simp
  then show ?case
    using Suc by (simp add: from_bytes_big_Cons length_be_bytes uint_byte_of_int mult.commute)
qed

lemma take_be_bytes: "m \<le> n \<Longrightarrow> take m (be_bytes n t) = be_bytes m (t div 256 ^ (n - m))"
proof (induction m arbitrary: n)
  case 0
  show ?case by simp
next
  case (Suc m)
  then obtain n' where n: "n = Suc n'" by (cases n) auto
  have "(256::int) ^ n' = 256 ^ (n' - m) * 256 ^ m"
    using Suc.prems n by (simp add: power_add[symmetric])
  then have "t div 256 ^ (n' - m) div 256 ^ m = t div 256 ^ n'"
    by (simp add: zdiv_zmult2_eq)
  then show ?case using Suc n by simp
qed

lemma strip_char:
  assumes "0 \<le> t" "t < 256 ^ k" "n \<le> k"
    and "(n = 0 \<and> t = 0) \<or> (1 \<le> n \<and> 256 ^ (n - 1) \<le> t \<and> t < 256 ^ n)"
  shows "strip_leading_zeros (be_bytes k t @ replicate (3 - k) 0) k
         = Inr (be_bytes n t @ replicate (3 - n) 0, n)"
  using assms
proof (induction k)
  case 0
  then show ?case by simp
next
  case (Suc k)
  show ?case
  proof (cases "n = Suc k")
    case True
    with Suc.prems have "256 ^ k \<le> t" "t < 256 ^ k * 256" by auto
    then have "1 \<le> t div 256 ^ k" "t div 256 ^ k < 256"
      using le_div_int[of "256 ^ k" 1 t] div_lt_int[of "256 ^ k" t 256] by (simp_all add: mult.commute)
    then have "uint (word_of_int (t div 256 ^ k) :: byte) \<noteq> 0"
      by (simp add: uint_byte_of_int)
    then have "(word_of_int (t div 256 ^ k) :: byte) \<noteq> 0"
      by auto
    then show ?thesis using True by simp
  next
    case False
    with Suc.prems have nk: "n \<le> k" by simp
    have tk: "t < 256 ^ k"
    proof -
      from Suc.prems(4) show ?thesis
      proof
        assume "n = 0 \<and> t = 0" then show ?thesis by simp
      next
        assume a: "1 \<le> n \<and> 256 ^ (n - 1) \<le> t \<and> t < 256 ^ n"
        have "(256::int) ^ n \<le> 256 ^ k" using nk by (simp add: power_increasing)
        with a show ?thesis by linarith
      qed
    qed
    then have "t div 256 ^ k = 0" using Suc.prems(1) by simp
    then have hd0: "(word_of_int (t div 256 ^ k) :: byte) = 0" by simp
    define rest where "rest = be_bytes k t @ replicate (3 - Suc k) (0::byte)"
    have pad: "(if length rest < 3 then rest @ [0] else rest)
               = be_bytes k t @ replicate (3 - k) (0::byte)"
    proof (cases "k < 3")
      case True
      then have "3 - k = Suc (3 - Suc k)" by simp
      then show ?thesis using True by (simp add: rest_def length_be_bytes replicate_append_same)
    next
      case False
      then show ?thesis by (simp add: rest_def length_be_bytes)
    qed
    have "be_bytes (Suc k) t @ replicate (3 - Suc k) 0 = 0 # rest"
      using hd0 by (simp add: rest_def)
    then have "strip_leading_zeros (be_bytes (Suc k) t @ replicate (3 - Suc k) 0) (Suc k)
          = strip_leading_zeros (if length rest < 3 then rest @ [0] else rest) k"
      by (simp del: be_bytes.simps)
    also have "\<dots> = strip_leading_zeros (be_bytes k t @ replicate (3 - k) 0) k"
      by (simp only: pad)
    also have "\<dots> = Inr (be_bytes n t @ replicate (3 - n) 0, n)"
      using Suc.IH[OF Suc.prems(1) tk nk Suc.prems(4)] .
    finally show ?thesis .
  qed
qed

lemma bits_to_target_arith:
  "bits_to_target b =
     (if b < 0 \<or> 2 ^ 32 \<le> b then Inl (InvalidHeader BitsNotUint32)
      else if compact_negative b then Inl (InvalidHeader TargetNegative)
      else if compact_over_range b then Inl (InvalidHeader TargetOverflown)
      else Inr (compact_value b))"
proof -
  let ?N = "b div 2 ^ 24 mod 256"
  have N0: "0 \<le> ?N" by simp
  have e: "int (compact_exponent b) = ?N" by (simp add: compact_exponent_def)
  have n1: "nat (8 * (3 - ?N)) = 8 * (3 - compact_exponent b)"
    by (simp add: compact_exponent_def nat_mult_distrib nat_diff_distrib')
  have n2: "nat (8 * (?N - 3)) = 8 * (compact_exponent b - 3)"
    by (simp add: compact_exponent_def nat_mult_distrib nat_diff_distrib')
  have c1: "(?N \<le> 3) = (compact_exponent b \<le> 3)" using e by linarith
  have c2: "(?N > 34) = (compact_exponent b > 34)" "(?N > 33) = (compact_exponent b > 33)"
           "(?N > 32) = (compact_exponent b > 32)" using e by linarith+
  have p8: "\<And>k. (2::int) ^ (8 * k) = 256 ^ k" by (simp add: power_mult)
  have tv: "(if ?N \<le> 3 then drop_bit (nat (8 * (3 - ?N))) (b mod 8388608)
            else push_bit (nat (8 * (?N - 3))) (b mod 8388608)) = compact_value b"
    unfolding n1 n2 c1
    by (simp add: compact_value_def compact_mantissa_def drop_bit_eq_div push_bit_eq_mult p8)
  show ?thesis
    unfolding bits_to_target_def Let_def and_ff and_7fffff and_800000 drop_bit_eq_div[of 24 b] tv c2
    by (simp add: compact_negative_def compact_over_range_def compact_mantissa_def push_bit_eq_mult)
qed

lemma compact_mantissa_range: "0 \<le> compact_mantissa b \<and> compact_mantissa b < 2 ^ 23"
  by (simp add: compact_mantissa_def)

lemma compact_value_nonneg: "0 \<le> compact_value b"
  using compact_mantissa_range[of b]
  by (simp add: compact_value_def pos_imp_zdiv_nonneg_iff)

lemma scaled_bound:
  assumes "0 \<le> (m::int)" "m \<le> c" "k \<le> j"
  shows "m * 256 ^ k \<le> c * 256 ^ j"
proof -
  have "(256::int) ^ k \<le> 256 ^ j" using assms(3) by (simp add: power_increasing)
  then show ?thesis using assms(1,2) by (intro mult_mono) simp_all
qed

lemma compact_value_bound:
  assumes "\<not> compact_over_range b"
  shows "compact_value b < 2 ^ 256"
proof -
  let ?N = "compact_exponent b" and ?M = "compact_mantissa b"
  have M: "0 \<le> ?M" "?M \<le> 8388607" using compact_mantissa_range[of b] by simp_all
  show ?thesis
  proof (cases "?N \<le> 3")
    case True
    have "?M div 256 ^ (3 - ?N) < 8388608"
      using M by (intro div_lt_int) (simp_all, smt (verit) mult_le_cancel_left1 one_le_power)
    then show ?thesis using True by (simp add: compact_value_def)
  next
    case False
    then have v: "compact_value b = ?M * 256 ^ (?N - 3)" by (simp add: compact_value_def)
    show ?thesis
    proof (cases "compact_value b = 0")
      case True
      then show ?thesis by simp
    next
      case nz: False
      with assms have r: "?N \<le> 34" "?N \<le> 33 \<or> ?M \<le> 0xff" "?N \<le> 32 \<or> ?M \<le> 0xffff"
        by (auto simp: compact_over_range_def)
      consider "?N \<le> 32" | "?N = 33" "?M \<le> 0xffff" | "?N = 34" "?M \<le> 0xff"
        using r by force
      then show ?thesis
      proof cases
        case 1
        then have "?M * 256 ^ (?N - 3) \<le> 8388607 * 256 ^ 29"
          using M by (intro scaled_bound) simp_all
        then show ?thesis unfolding v by simp
      next
        case 2
        then have "?M * 256 ^ (?N - 3) \<le> 0xffff * 256 ^ 30"
          using M by (intro scaled_bound) simp_all
        then show ?thesis unfolding v by simp
      next
        case 3
        then have "?M * 256 ^ (?N - 3) \<le> 0xff * 256 ^ 31"
          using M by (intro scaled_bound) simp_all
        then show ?thesis unfolding v by simp
      qed
    qed
  qed
qed

lemma top3_value:
  assumes "0 \<le> t" "t < 256 ^ n"
  shows "from_bytes_big (take 3 (be_bytes n t @ replicate (3 - n) 0)) = t * 256 ^ 3 div 256 ^ n"
proof (cases "3 \<le> n")
  case True
  have "(256::int) ^ n = 256 ^ (3 + (n - 3))" using True by simp
  also have "\<dots> = 256 ^ 3 * 256 ^ (n - 3)" by (rule power_add)
  finally have p: "(256::int) ^ n = 256 ^ 3 * 256 ^ (n - 3)" .
  have lt: "t div 256 ^ (n - 3) < 256 ^ 3"
    using assms(2) p by (intro div_lt_int) simp_all
  have ge: "0 \<le> t div 256 ^ (n - 3)" using assms(1) by (simp add: pos_imp_zdiv_nonneg_iff)
  have "take 3 (be_bytes n t @ replicate (3 - n) 0) = be_bytes 3 (t div 256 ^ (n - 3))"
    using True by (simp add: length_be_bytes take_be_bytes del: be_bytes.simps)
  then have "from_bytes_big (take 3 (be_bytes n t @ replicate (3 - n) 0)) = t div 256 ^ (n - 3)"
    using lt ge by (simp add: from_bytes_big_be_bytes del: be_bytes.simps)
  moreover have "t * 256 ^ 3 div 256 ^ n = t div 256 ^ (n - 3)"
    unfolding p by (simp add: mult.commute[of t])
  ultimately show ?thesis by simp
next
  case False
  then consider "n = 0" | "n = 1" | "n = 2" by linarith
  then show ?thesis
  proof cases
    case 1
    then show ?thesis using assms by (simp add: from_bytes_big_def numeral_3_eq_3)
  next
    case 2
    then have "be_bytes n t = [word_of_int t]" by (simp add: numeral_eq_Suc)
    then show ?thesis using assms 2
      by (simp add: from_bytes_big_def uint_byte_of_int numeral_2_eq_2)
  next
    case 3
    then have b: "be_bytes n t = [word_of_int (t div 256), word_of_int t]"
      by (simp add: numeral_eq_Suc)
    have "t div 256 < 256" using assms 3 by (intro div_lt_int) simp_all
    moreover have "0 \<le> t div 256" using assms by simp
    ultimately have "t div 256 mod 256 = t div 256" by simp
    then show ?thesis using assms 3 unfolding b
      by (simp add: from_bytes_big_def uint_byte_of_int)
  qed
qed

lemma target_to_bits_zero: "target_to_bits 0 = Inr 0"
proof -
  have "strip_leading_zeros (be_bytes 32 0 @ replicate (3 - 32) 0) 32
        = Inr (be_bytes 0 0 @ replicate (3 - 0) 0, 0)"
    by (rule strip_char) simp_all
  then have "strip_leading_zeros (be_bytes 32 0) 32 = Inr (replicate 3 0, 0)"
    by (simp del: be_bytes.simps(2) strip_leading_zeros.simps)
  then show ?thesis
    by (simp add: target_to_bits_def to_bytes_big_def length_be_bytes from_bytes_big_def
          numeral_3_eq_3 del: be_bytes.simps(2) strip_leading_zeros.simps)
qed

lemma top3_bounds:
  assumes "1 \<le> n" "256 ^ (n - 1) \<le> (t::int)" "t < 256 ^ n"
  shows "65536 \<le> t * 256 ^ 3 div 256 ^ n" "t * 256 ^ 3 div 256 ^ n < 16777216"
proof -
  have "(256::int) ^ n = 256 ^ (1 + (n - 1))" using assms(1) by simp
  also have "\<dots> = 256 * 256 ^ (n - 1)" by (simp only: power_add power_one_right)
  finally have p: "(256::int) ^ n = 256 * 256 ^ (n - 1)" .
  have "65536 * 256 ^ n \<le> t * 256 ^ 3" using assms(2) unfolding p by simp
  then show "65536 \<le> t * 256 ^ 3 div 256 ^ n" by (intro le_div_int) simp_all
  have "t * 256 ^ 3 < 16777216 * 256 ^ n" using assms(3) by simp
  then show "t * 256 ^ 3 div 256 ^ n < 16777216" by (intro div_lt_int) simp_all
qed

lemma target_to_bits_char:
  assumes "1 \<le> n" "n \<le> 32" "256 ^ (n - 1) \<le> t" "t < 256 ^ n"
  shows "target_to_bits t =
           Inr (if 8388608 \<le> t * 256 ^ 3 div 256 ^ n
                then (int n + 1) * 2 ^ 24 + t * 256 ^ 3 div 256 ^ n div 256
                else int n * 2 ^ 24 + t * 256 ^ 3 div 256 ^ n)"
proof -
  let ?top = "t * 256 ^ 3 div 256 ^ n"
  have t0: "0 \<le> t" using assms(3) by (smt (verit) zero_le_power)
  have "(256::int) ^ n \<le> 256 ^ 32" using assms(2) by (intro power_increasing) simp_all
  then have t32: "t < 256 ^ 32" using assms(4) by linarith
  have tb: "to_bytes_big t 32 = Inr (be_bytes 32 t)"
    using t0 t32 by (simp add: to_bytes_big_def del: be_bytes.simps(2))
  have "strip_leading_zeros (be_bytes 32 t @ replicate (3 - 32) 0) 32
        = Inr (be_bytes n t @ replicate (3 - n) 0, n)"
    using t0 t32 assms by (intro strip_char) simp_all
  then have st: "strip_leading_zeros (be_bytes 32 t) 32 = Inr (be_bytes n t @ replicate (3 - n) 0, n)"
    by (simp del: be_bytes.simps(2) strip_leading_zeros.simps)
  have top: "from_bytes_big (take 3 (be_bytes n t @ replicate (3 - n) 0)) = ?top"
    using t0 assms(4) by (rule top3_value)
  define top where "top = t * 256 ^ 3 div 256 ^ n"
  have b: "65536 \<le> top" "top < 16777216"
    using top3_bounds[OF assms(1,3,4)] by (simp_all add: top_def)
  have o1: "push_bit 24 (int n) OR top = int n * 2 ^ 24 + top"
    using b by (intro or_add) simp_all
  have "top div 256 < 2 ^ 24" using b(2) div_lt_int[of 256 top "2 ^ 24"] by simp
  moreover have "0 \<le> top div 256" using b(1) by (simp add: pos_imp_zdiv_nonneg_iff)
  ultimately have o2: "push_bit 24 (int n + 1) OR top div 256 = (int n + 1) * 2 ^ 24 + top div 256"
    by (intro or_add) simp_all
  have db: "drop_bit 8 top = top div 256" by (simp add: drop_bit_eq_div)
  have "target_to_bits t =
           Inr (if 8388608 \<le> top then (int n + 1) * 2 ^ 24 + top div 256
                else int n * 2 ^ 24 + top)"
    unfolding target_to_bits_def tb sum.case length_be_bytes st prod.case Let_def top
              top_def[symmetric] db o1 o2
    by simp
  then show ?thesis by (simp only: top_def)
qed

lemma compact_fields:
  assumes "N \<le> 255" "0 \<le> M" "M < 2 ^ 23"
  shows "compact_exponent (int N * 2 ^ 24 + M) = N"
    and "compact_mantissa (int N * 2 ^ 24 + M) = M"
    and "(int N * 2 ^ 24 + M) div 2 ^ 23 mod 2 = 0"
    and "0 \<le> int N * 2 ^ 24 + M" and "int N * 2 ^ 24 + M < 2 ^ 32"
proof -
  have "(int N * 2 ^ 24 + M) div 2 ^ 24 = int N" using assms by simp
  then show "compact_exponent (int N * 2 ^ 24 + M) = N"
    using assms(1) by (simp add: compact_exponent_def)
  have "int N * 2 ^ 24 + M = M + (2 * int N) * 2 ^ 23" by simp
  then have "(int N * 2 ^ 24 + M) mod 2 ^ 23 = M mod 2 ^ 23"
    by (simp only: mod_mult_self1)
  then show "compact_mantissa (int N * 2 ^ 24 + M) = M"
    using assms by (simp add: compact_mantissa_def)
  have "int N * 2 ^ 24 + M = M + (2 * int N) * 2 ^ 23" by simp
  then have "(int N * 2 ^ 24 + M) div 2 ^ 23 = 2 * int N + M div 2 ^ 23"
    by (simp only: div_mult_self1) (simp)
  then show "(int N * 2 ^ 24 + M) div 2 ^ 23 mod 2 = 0" using assms by simp
  show "0 \<le> int N * 2 ^ 24 + M" using assms by simp
  have "int N * 2 ^ 24 \<le> 255 * 2 ^ 24" using assms(1) by simp
  then show "int N * 2 ^ 24 + M < 2 ^ 32" using assms by simp
qed

lemma ex_byte_length:
  assumes "0 < (t::int)" "t < 256 ^ 32"
  shows "\<exists>n. 1 \<le> n \<and> n \<le> 32 \<and> 256 ^ (n - 1) \<le> t \<and> t < 256 ^ n"
proof -
  define n where "n = (LEAST n. t < 256 ^ n)"
  have lt: "t < 256 ^ n" unfolding n_def using assms(2) by (rule LeastI)
  have le32: "n \<le> 32" unfolding n_def using assms(2) by (rule Least_le)
  have n0: "n \<noteq> 0" using lt assms(1) by (cases "n = 0") simp_all
  have "\<not> t < 256 ^ (n - 1)"
  proof
    assume "t < 256 ^ (n - 1)"
    then have "n \<le> n - 1" unfolding n_def by (rule Least_le)
    with n0 show False by simp
  qed
  then show ?thesis using lt le32 n0 by (intro exI[of _ n]) simp
qed

lemma pow256_split:
  assumes "j \<le> n" shows "(256::int) ^ n = 256 ^ j * 256 ^ (n - j)"
proof -
  have "(256::int) ^ n = 256 ^ (j + (n - j))" using assms by simp
  then show ?thesis by (simp only: power_add)
qed

lemma top_ge3: "3 \<le> n \<Longrightarrow> (t::int) * 256 ^ 3 div 256 ^ n = t div 256 ^ (n - 3)"
  using pow256_split[of 3 n] by (simp add: mult.commute[of t])

lemma top_le3: "n \<le> 3 \<Longrightarrow> (t::int) * 256 ^ 3 div 256 ^ n = t * 256 ^ (3 - n)"
proof -
  assume "n \<le> 3"
  then have "(256::int) ^ 3 = 256 ^ n * 256 ^ (3 - n)" by (rule pow256_split)
  then have "t * 256 ^ 3 = 256 ^ n * (t * 256 ^ (3 - n))" by (simp only: mult.left_commute mult.commute)
  then show ?thesis by (simp only: nonzero_mult_div_cancel_left) simp
qed

lemma decode_compact:
  assumes "0 \<le> M" "M < 2 ^ 23" "N \<le> 32 \<or> (N = 33 \<and> M \<le> 0xffff)"
  shows "bits_to_target (int N * 2 ^ 24 + M)
         = Inr (if N \<le> 3 then M div 256 ^ (3 - N) else M * 256 ^ (N - 3))"
proof -
  have N: "N \<le> 255" using assms(3) by auto
  note f = compact_fields[OF N assms(1,2)]
  have v: "compact_value (int N * 2 ^ 24 + M)
           = (if N \<le> 3 then M div 256 ^ (3 - N) else M * 256 ^ (N - 3))"
    unfolding compact_value_def f(1,2) ..
  have neg: "\<not> compact_negative (int N * 2 ^ 24 + M)"
    unfolding compact_negative_def f(3) by simp
  have ovr: "\<not> compact_over_range (int N * 2 ^ 24 + M)"
    unfolding compact_over_range_def f(1,2) using assms(3) by auto
  show ?thesis
    unfolding bits_to_target_arith v[symmetric] using f(4,5) neg ovr by simp
qed

lemma dec_enc:
  assumes "1 \<le> n" "n \<le> 32" "256 ^ (n - 1) \<le> t" "t < 256 ^ n"
  shows "\<exists>b. target_to_bits t = Inr b \<and> bits_to_target b = Inr (trunc_target n t)"
proof -
  define top where "top = t * 256 ^ 3 div 256 ^ n"
  have b: "65536 \<le> top" "top < 16777216"
    using top3_bounds[OF assms(1,3,4)] by (simp_all add: top_def)
  have enc: "target_to_bits t =
           Inr (if 8388608 \<le> top then (int n + 1) * 2 ^ 24 + top div 256
                else int n * 2 ^ 24 + top)"
    using target_to_bits_char[OF assms] by (simp only: top_def)
  have tt: "trunc_target n t =
     (if 8388608 \<le> top
      then (if n \<le> 2 then t else t div 256 ^ (n - 2) * 256 ^ (n - 2))
      else (if n \<le> 3 then t else t div 256 ^ (n - 3) * 256 ^ (n - 3)))"
    unfolding trunc_target_def top_def ..
  show ?thesis
  proof (cases "8388608 \<le> top")
    case True
    have m: "0 \<le> top div 256" "top div 256 < 2 ^ 23" "top div 256 \<le> 0xffff"
      using b div_lt_int[of 256 top 65536] by (simp_all add: pos_imp_zdiv_nonneg_iff)
    have "bits_to_target (int (n + 1) * 2 ^ 24 + top div 256)
          = Inr (if n + 1 \<le> 3 then top div 256 div 256 ^ (3 - (n + 1))
                 else top div 256 * 256 ^ (n + 1 - 3))"
      using m assms(2) by (intro decode_compact) auto
    moreover have "(if n + 1 \<le> 3 then top div 256 div 256 ^ (3 - (n + 1))
                 else top div 256 * 256 ^ (n + 1 - 3)) = trunc_target n t"
    proof (cases "n \<le> 2")
      case le: True
      then have "top = t * 256 ^ (3 - n)" unfolding top_def by (intro top_le3) simp
      also have "\<dots> = (t * 256 ^ (2 - n)) * 256" using le
        by (simp add: Suc_diff_le numeral_3_eq_3 numeral_2_eq_2)
      finally have "top div 256 = t * 256 ^ (2 - n)" by simp
      then show ?thesis using le True by (simp add: tt)
    next
      case gt: False
      then have "top = t div 256 ^ (n - 3)" unfolding top_def by (intro top_ge3) simp
      moreover have "n - 2 = Suc (n - 3)" using gt by simp
      then have "(256::int) ^ (n - 2) = 256 ^ (n - 3) * 256" by simp
      ultimately have "top div 256 = t div 256 ^ (n - 2)" by (simp add: zdiv_zmult2_eq)
      then show ?thesis using gt True by (simp add: tt)
    qed
    ultimately show ?thesis using enc True by (simp add: algebra_simps)
  next
    case False
    have m: "0 \<le> top" "top < 2 ^ 23" using b False by simp_all
    have "bits_to_target (int n * 2 ^ 24 + top)
          = Inr (if n \<le> 3 then top div 256 ^ (3 - n) else top * 256 ^ (n - 3))"
      using m assms(2) by (intro decode_compact) auto
    moreover have "(if n \<le> 3 then top div 256 ^ (3 - n) else top * 256 ^ (n - 3))
                   = trunc_target n t"
    proof (cases "n \<le> 3")
      case le: True
      then have "top = t * 256 ^ (3 - n)" unfolding top_def by (rule top_le3)
      then show ?thesis using le False by (simp add: tt)
    next
      case gt: False
      then have "top = t div 256 ^ (n - 3)" unfolding top_def by (intro top_ge3) simp
      then show ?thesis using gt False by (simp add: tt)
    qed
    ultimately show ?thesis using enc False by simp
  qed
qed

lemma floor_mult_le: "0 < (d::int) \<Longrightarrow> t div d * d \<le> t"
  using div_mult_mod_eq[of t d] pos_mod_sign[of d t] by linarith

lemma enc_trunc:
  assumes "1 \<le> n" "n \<le> 32" "256 ^ (n - 1) \<le> t" "t < 256 ^ n"
  shows "target_to_bits (trunc_target n t) = target_to_bits t"
proof -
  define top where "top = t * 256 ^ 3 div 256 ^ n"
  have b: "65536 \<le> top" "top < 16777216"
    using top3_bounds[OF assms(1,3,4)] by (simp_all add: top_def)
  have tt: "trunc_target n t =
     (if 8388608 \<le> top
      then (if n \<le> 2 then t else t div 256 ^ (n - 2) * 256 ^ (n - 2))
      else (if n \<le> 3 then t else t div 256 ^ (n - 3) * 256 ^ (n - 3)))"
    unfolding trunc_target_def top_def ..
  show ?thesis
  proof (cases "n \<le> 2 \<or> (n \<le> 3 \<and> \<not> 8388608 \<le> top)")
    case True
    then have "trunc_target n t = t" by (auto simp: tt)
    then show ?thesis by simp
  next
    case False
    then have n3: "3 \<le> n" by simp
    define d :: int where "d = 256 ^ (n - 3)"
    have d0: "0 < d" by (simp add: d_def)
    have topd: "top = t div d" unfolding top_def d_def using n3 by (rule top_ge3)
    have pn1: "(256::int) ^ (n - 1) = 65536 * d"
      using n3 pow256_split[of 2 "n - 1"] by (simp add: d_def)
    have pn: "(256::int) ^ n = 16777216 * d"
      using n3 pow256_split[of 3 n] by (simp add: d_def)
    have n2: "n - 2 = Suc (n - 3)" using n3 by simp
    have pD: "(256::int) ^ (n - 2) = d * 256" unfolding n2 by (simp add: d_def)
    show ?thesis
    proof (cases "8388608 \<le> top")
      case B: True
      define q where "q = t div (d * 256)"
      have qtop: "q = top div 256" unfolding q_def topd using d0 by (simp add: zdiv_zmult2_eq)
      have q15: "32768 \<le> q" unfolding qtop using B le_div_int[of 256 32768 top] by simp
      have t': "trunc_target n t = q * (d * 256)"
        using B n3 by (simp add: tt pD q_def)
      have le: "q * (d * 256) \<le> t" unfolding q_def using d0 by (intro floor_mult_le) simp
      have "65536 * d \<le> q * (d * 256)" 
      proof -
        have "256 * (d * 256) \<le> q * (d * 256)" using q15 d0 by (intro mult_right_mono) simp_all
        then show ?thesis using d0 by simp
      qed
      then have lo: "256 ^ (n - 1) \<le> q * (d * 256)" by (simp only: pn1)
      have hi: "q * (d * 256) < 256 ^ n" using le assms(4) by linarith
      have top': "q * (d * 256) * 256 ^ 3 div 256 ^ n = q * 256"
      proof -
        have "q * (d * 256) * 256 ^ 3 div 256 ^ n = q * (d * 256) div 256 ^ (n - 3)"
          using n3 by (rule top_ge3)
        also have "\<dots> = (q * 256) * d div d" by (simp add: d_def mult.assoc mult.commute)
        also have "\<dots> = q * 256" using d0 by simp
        finally show ?thesis .
      qed
      have "target_to_bits (q * (d * 256)) = Inr ((int n + 1) * 2 ^ 24 + q)"
        using target_to_bits_char[OF assms(1,2) lo hi] q15 unfolding top' by simp
      moreover have "target_to_bits t = Inr ((int n + 1) * 2 ^ 24 + q)"
        using target_to_bits_char[OF assms] B unfolding top_def[symmetric] qtop by simp
      ultimately show ?thesis by (simp add: t')
    next
      case A: False
      have t': "trunc_target n t = top * d"
        using A False by (simp add: tt topd d_def)
      have le: "top * d \<le> t" unfolding topd using d0 by (rule floor_mult_le)
      have "65536 * d \<le> top * d" using b(1) d0 by (intro mult_right_mono) simp_all
      then have lo: "256 ^ (n - 1) \<le> top * d" by (simp only: pn1)
      have hi: "top * d < 256 ^ n" using le assms(4) by linarith
      have top': "top * d * 256 ^ 3 div 256 ^ n = top"
      proof -
        have "top * d * 256 ^ 3 div 256 ^ n = top * d div 256 ^ (n - 3)"
          using n3 by (rule top_ge3)
        also have "\<dots> = top" using d0 by (simp add: d_def)
        finally show ?thesis .
      qed
      have "target_to_bits (top * d) = Inr (int n * 2 ^ 24 + top)"
        using target_to_bits_char[OF assms(1,2) lo hi] A unfolding top' by simp
      moreover have "target_to_bits t = Inr (int n * 2 ^ 24 + top)"
        using target_to_bits_char[OF assms] A unfolding top_def[symmetric] by simp
      ultimately show ?thesis by (simp add: t')
    qed
  qed
qed

lemma pow256_less_exp: "(256::int) ^ a < 256 ^ b \<Longrightarrow> a < b"
  by (rule power_less_imp_less_exp[of 256]) simp_all

lemma floor_exact:
  assumes "j \<le> k" shows "(m * 256 ^ k) div 256 ^ j * 256 ^ j = (m::int) * 256 ^ k"
proof -
  define c where "c = m * 256 ^ (k - j)"
  have p: "(256::int) ^ k = 256 ^ j * 256 ^ (k - j)" using assms by (rule pow256_split)
  have e: "m * 256 ^ k = c * 256 ^ j" unfolding c_def p by (simp add: mult.assoc mult.commute)
  show ?thesis unfolding e by simp
qed

lemma trunc_id:
  assumes "1 \<le> n" "256 ^ (n - 1) \<le> t" "t < 256 ^ n" "t = compact_value b"
  shows "trunc_target n t = t"
proof (cases "n \<le> 2")
  case True
  then show ?thesis by (simp add: trunc_target_def)
next
  case False
  then have n3: "3 \<le> n" by simp
  let ?N = "compact_exponent b" and ?M = "compact_mantissa b"
  have M: "0 \<le> ?M" "?M < 8388608" using compact_mantissa_range[of b] by simp_all
  define top where "top = t * 256 ^ 3 div 256 ^ n"
  have tt: "trunc_target n t =
     (if 8388608 \<le> top
      then (if n \<le> 2 then t else t div 256 ^ (n - 2) * 256 ^ (n - 2))
      else (if n \<le> 3 then t else t div 256 ^ (n - 3) * 256 ^ (n - 3)))"
    unfolding trunc_target_def top_def ..
  have topd: "top = t div 256 ^ (n - 3)" unfolding top_def using n3 by (rule top_ge3)
  show ?thesis
  proof (cases "?N \<le> 3")
    case True
    then have "t = ?M div 256 ^ (3 - ?N)" using assms(4) by (simp add: compact_value_def)
    moreover have "?M < 8388608 * 256 ^ (3 - ?N)"
      using M by (smt (verit) mult_le_cancel_left1 one_le_power)
    ultimately have t23: "t < 8388608" using div_lt_int[of "256 ^ (3 - ?N)" ?M 8388608] by simp
    then have "(256::int) ^ (n - 1) < 256 ^ 3" using assms(2) by simp
    then have "n - 1 < 3" by (rule pow256_less_exp)
    with n3 have n: "n = 3" by simp
    then have "top = t" using topd by simp
    then show ?thesis unfolding tt using t23 n by simp
  next
    case False
    define k where "k = ?N - 3"
    have t: "t = ?M * 256 ^ k" using assms(4) False by (simp add: compact_value_def k_def)
    have tlt: "t < 8388608 * 256 ^ k" unfolding t using M by simp
    show ?thesis
    proof (cases "8388608 \<le> top")
      case B: True
      have "top * 256 ^ (n - 3) \<le> t" unfolding topd by (intro floor_mult_le) simp
      moreover have "8388608 * 256 ^ (n - 3) \<le> top * (256::int) ^ (n - 3)"
        using B by (intro mult_right_mono) simp_all
      ultimately have "8388608 * (256::int) ^ (n - 3) < 8388608 * 256 ^ k" using tlt by linarith
      then have "(256::int) ^ (n - 3) < 256 ^ k" by simp
      then have "n - 3 < k" by (rule pow256_less_exp)
      then have "n - 2 \<le> k" using n3 by simp
      then have "t div 256 ^ (n - 2) * 256 ^ (n - 2) = t" unfolding t by (rule floor_exact)
      then show ?thesis using B n3 by (simp add: tt)
    next
      case A: False
      have "(256::int) ^ (n - 1) < 8388608 * 256 ^ k" using assms(2) tlt by linarith
      also have "\<dots> \<le> 256 ^ 3 * 256 ^ k" by simp
      also have "\<dots> = 256 ^ (3 + k)" by (simp only: power_add)
      finally have "n - 1 < 3 + k" by (rule pow256_less_exp)
      then have "n - 3 \<le> k" by simp
      then have "t div 256 ^ (n - 3) * 256 ^ (n - 3) = t" unfolding t by (rule floor_exact)
      then show ?thesis using A by (simp add: tt)
    qed
  qed
qed

lemma decode_encode_decode:
  assumes "bits_to_target b = Inr t"
  shows "\<exists>b'. target_to_bits t = Inr b' \<and> bits_to_target b' = Inr t"
proof -
  from assms have v: "t = compact_value b" and nr: "\<not> compact_over_range b"
    by (auto simp: bits_to_target_arith split: if_splits)
  have t0: "0 \<le> t" unfolding v by (rule compact_value_nonneg)
  have t256: "t < 256 ^ 32" using compact_value_bound[OF nr] v by simp
  show ?thesis
  proof (cases "t = 0")
    case True
    have "bits_to_target 0 = Inr 0"
      by (simp add: bits_to_target_arith compact_negative_def compact_over_range_def
            compact_value_def compact_exponent_def compact_mantissa_def)
    then show ?thesis using True target_to_bits_zero by simp
  next
    case False
    with t0 have "0 < t" by simp
    from ex_byte_length[OF this t256] obtain n where
      n: "1 \<le> n" "n \<le> 32" "256 ^ (n - 1) \<le> t" "t < 256 ^ n" by blast
    from dec_enc[OF n] obtain b' where
      "target_to_bits t = Inr b'" "bits_to_target b' = Inr (trunc_target n t)" by blast
    moreover have "trunc_target n t = t" using n(1,3,4) v by (rule trunc_id)
    ultimately show ?thesis by auto
  qed
qed

lemma encode_decode_encode:
  assumes "target_to_bits t = Inr b"
  shows "\<exists>t'. bits_to_target b = Inr t' \<and> target_to_bits t' = Inr b"
proof -
  from assms have t0: "0 \<le> t" and t256: "t < 256 ^ 32"
    by (auto simp: target_to_bits_def to_bytes_big_def split: if_splits)
  show ?thesis
  proof (cases "t = 0")
    case True
    have "bits_to_target 0 = Inr 0"
      by (simp add: bits_to_target_arith compact_negative_def compact_over_range_def
            compact_value_def compact_exponent_def compact_mantissa_def)
    then show ?thesis using True target_to_bits_zero assms by auto
  next
    case False
    with t0 have "0 < t" by simp
    from ex_byte_length[OF this t256] obtain n where
      n: "1 \<le> n" "n \<le> 32" "256 ^ (n - 1) \<le> t" "t < 256 ^ n" by blast
    from dec_enc[OF n] obtain b' where
      b': "target_to_bits t = Inr b'" "bits_to_target b' = Inr (trunc_target n t)" by blast
    have "target_to_bits (trunc_target n t) = Inr b'" using enc_trunc[OF n] b'(1) by simp
    then show ?thesis using b' assms by auto
  qed
qed

section \<open>Header codec: proofs\<close>


lemma hex_digit_table:
  "list_all (\<lambda>i. hex_val (hex_digit i) = Some i \<and> \<not> is_space (hex_digit i)) [0..<16]"
  by code_simp

lemma hex_val_digit: "i < 16 \<Longrightarrow> hex_val (hex_digit i) = Some i"
  using hex_digit_table by (simp add: list_all_iff)

lemma not_space_digit: "i < 16 \<Longrightarrow> \<not> is_space (hex_digit i)"
  using hex_digit_table by (simp add: list_all_iff)

lemma bytes_hex_Nil: "bytes_hex [] = []"
  by (simp add: bytes_hex_def)

lemma bytes_hex_Cons:
  "bytes_hex (b # bs) = hex_digit (unat b div 16) # hex_digit (unat b mod 16) # bytes_hex bs"
  by (simp add: bytes_hex_def hex_of_byte_def)

lemma bytes_hex_append: "bytes_hex (xs @ ys) = bytes_hex xs @ bytes_hex ys"
  by (simp add: bytes_hex_def)

lemma length_bytes_hex: "length (bytes_hex bs) = 2 * length bs"
  by (induction bs) (simp_all add: bytes_hex_Nil bytes_hex_Cons)

lemma nibbles: "unat (b::byte) div 16 < 16" "unat b mod 16 < 16"
proof -
  have "unat b < 2 ^ LENGTH(8)" by (rule unsigned_less)
  then have "unat b < 256" by simp
  then show "unat b div 16 < 16" by simp
  show "unat b mod 16 < 16" by simp
qed

lemma bfh_bytes_hex: "bfh (bytes_hex bs) = Inr bs"
proof (induction bs)
  case Nil
  show ?case by (simp add: bytes_hex_Nil)
next
  case (Cons b bs)
  have "(word_of_nat (16 * (unat b div 16) + unat b mod 16) :: byte) = b"
    by (simp add: mult_div_mod_eq)
  then show ?case
    using Cons nibbles[of b]
    by (simp add: bytes_hex_Cons hex_val_digit not_space_digit)
qed

lemma hex_digits_value_bytes_hex:
  "hex_digits_value acc (bytes_hex bs) = Inr (acc * 256 ^ length bs + from_bytes_big bs)"
proof (induction bs arbitrary: acc)
  case Nil
  show ?case by (simp add: bytes_hex_Nil from_bytes_big_Nil)
next
  case (Cons b bs)
  have "unat b div 16 * 16 + unat b mod 16 = unat b" by (rule div_mult_mod_eq)
  then have "int (unat b div 16 * 16 + unat b mod 16) = int (unat b)" by (rule arg_cong)
  then have "int (unat b div 16) * 16 + int (unat b mod 16) = uint b"
    by (simp only: of_nat_add of_nat_mult of_nat_numeral uint_nat)
  then have e: "(acc * 16 + int (unat b div 16)) * 16 + int (unat b mod 16) = acc * 256 + uint b"
    by (simp add: algebra_simps)
  have "hex_digits_value acc (bytes_hex (b # bs))
        = hex_digits_value ((acc * 16 + int (unat b div 16)) * 16 + int (unat b mod 16)) (bytes_hex bs)"
    using nibbles[of b] by (simp add: bytes_hex_Cons hex_val_digit)
  also have "\<dots> = Inr ((acc * 256 + uint b) * 256 ^ length bs + from_bytes_big bs)"
    unfolding e by (rule Cons.IH)
  also have "(acc * 256 + uint b) * 256 ^ length bs + from_bytes_big bs
             = acc * 256 ^ length (b # bs) + from_bytes_big (b # bs)"
    by (simp add: from_bytes_big_Cons algebra_simps)
  finally show ?case .
qed

lemma int_base16_bytes_hex:
  "bs \<noteq> [] \<Longrightarrow> int_base16 (bytes_hex bs) = Inr (from_bytes_big bs)"
proof -
  assume "bs \<noteq> []"
  then have "length (bytes_hex bs) \<noteq> 0" by (simp add: length_bytes_hex)
  then have "bytes_hex bs \<noteq> []" by auto
  then show ?thesis by (simp add: int_base16_def hex_digits_value_bytes_hex)
qed

lemma length_le_bytes: "length (le_bytes len v) = len"
  by (simp add: le_bytes_def length_be_bytes)

lemma int_to_hex_uint:
  "0 \<le> v \<Longrightarrow> v < 256 ^ len \<Longrightarrow> int_to_hex v len = Inr (bytes_hex (le_bytes len v))"
  by (simp add: int_to_hex_def le_bytes_def Let_def)

lemma from_bytes_little_le_bytes:
  "0 \<le> v \<Longrightarrow> v < 256 ^ len \<Longrightarrow> from_bytes_little (le_bytes len v) = v"
  by (simp add: from_bytes_little_def le_bytes_def from_bytes_big_be_bytes)

lemma int_base16_le_bytes:
  "0 \<le> v \<Longrightarrow> v < 256 ^ len \<Longrightarrow> 0 < len \<Longrightarrow>
   int_base16 (hash_encode (le_bytes len v)) = Inr v"
proof -
  assume a: "0 \<le> v" "v < 256 ^ len" "0 < len"
  have "be_bytes len v \<noteq> []" using a(3) length_be_bytes[of len v] by auto
  then show ?thesis
    using a by (simp add: hash_encode_def le_bytes_def int_base16_bytes_hex from_bytes_big_be_bytes)
qed

lemma is_hash256_D:
  assumes "is_hash256 s"
  shows "rev_hex s = Inr (bytes_hex (hash_bytes s))" "length (hash_bytes s) = 32"
        "hash_encode (hash_bytes s) = s"
  using assms
  by (auto simp: is_hash256_def rev_hex_def hash_bytes_def hash_encode_def split: sum.splits)


lemma slice_append_right:
  "length xs \<le> a \<Longrightarrow> slice (xs @ ys) a b = slice ys (a - length xs) (b - length xs)"
  by (simp add: slice_def)

lemma slice_append_left:
  "length xs = b \<Longrightarrow> slice (xs @ ys) 0 b = xs"
  by (simp add: slice_def)

lemma slice_all: "length xs = b \<Longrightarrow> slice xs 0 b = xs"
  by (simp add: slice_def)

lemma is_uint_32: "is_uint 32 v \<Longrightarrow> 0 \<le> v \<and> v < 256 ^ 4"
  by (simp add: is_uint_def)

lemma is_uint_64: "is_uint 64 v \<Longrightarrow> 0 \<le> v \<and> v < 256 ^ 8"
  by (simp add: is_uint_def)

lemma serialize_legacy:
  assumes "is_uint 32 v" "is_hash256 pb" "is_hash256 mr" "is_uint 32 ts" "is_uint 32 b"
    "is_uint 32 nc"
  shows "serialize_header \<lparr> version = Some v, prev_block_hash = Some pb, merkle_root = Some mr,
           timestamp = Some ts, bits = Some b, nheight = None, nonce = Some nc,
           nonce64 = n64, mix_hash = mx, block_height = ht \<rparr>
         = Inr (bytes_hex (legacy_layout v pb mr ts b nc))"
  using assms(1,4,5,6)[THEN is_uint_32] is_hash256_D(1)[OF assms(2)] is_hash256_D(1)[OF assms(3)]
  by (simp add: serialize_header_def bind_err_def item_def int_to_hex_uint bytes_hex_append
        legacy_layout_def)

lemma serialize_extended:
  assumes "is_uint 32 v" "is_hash256 pb" "is_hash256 mr" "is_uint 32 ts" "is_uint 32 b"
    "is_uint 32 nh" "is_hash256 mx"
    "is_uint 64 (case n64 of Some x \<Rightarrow> x | None \<Rightarrow> (case nc of Some x \<Rightarrow> x | None \<Rightarrow> 0))"
  shows "serialize_header \<lparr> version = Some v, prev_block_hash = Some pb, merkle_root = Some mr,
           timestamp = Some ts, bits = Some b, nheight = Some nh, nonce = nc,
           nonce64 = n64, mix_hash = Some mx, block_height = ht \<rparr>
         = Inr (bytes_hex (extended_layout v pb mr ts b nh
                  (case n64 of Some x \<Rightarrow> x | None \<Rightarrow> (case nc of Some x \<Rightarrow> x | None \<Rightarrow> 0)) mx))"
  using assms(1,4,5,6)[THEN is_uint_32] assms(8)[THEN is_uint_64]
    is_hash256_D(1)[OF assms(2)] is_hash256_D(1)[OF assms(3)] is_hash256_D(1)[OF assms(7)]
  by (cases n64; cases nc)
     (simp_all add: serialize_header_def bind_err_def item_def int_to_hex_uint bytes_hex_append
        extended_layout_def)

lemma length_legacy_layout:
  "is_hash256 pb \<Longrightarrow> is_hash256 mr \<Longrightarrow> length (legacy_layout v pb mr ts b nc) = 80"
  by (simp add: legacy_layout_def length_le_bytes is_hash256_D(2))

lemma length_extended_layout:
  "is_hash256 pb \<Longrightarrow> is_hash256 mr \<Longrightarrow> is_hash256 mx \<Longrightarrow>
   length (extended_layout v pb mr ts b nh nc mx) = 120"
  by (simp add: extended_layout_def length_le_bytes is_hash256_D(2))


lemma from_bytes_big_zeros: "from_bytes_big (replicate k 0) = 0"
  by (induction k) (simp_all add: from_bytes_big_Nil from_bytes_big_Cons)

lemma le_bytes_zero_imp:
  assumes "0 \<le> v" "v < 256 ^ len" "le_bytes len v = replicate len 0"
  shows "v = 0"
proof -
  have "from_bytes_little (le_bytes len v) = v" using assms(1,2) by (rule from_bytes_little_le_bytes)
  then show ?thesis unfolding assms(3) by (simp add: from_bytes_little_def from_bytes_big_zeros)
qed

lemma deserialize_legacy:
  assumes "is_uint 32 v" "is_hash256 pb" "is_hash256 mr" "is_uint 32 ts" "is_uint 32 b"
    "is_uint 32 nc"
  shows "deserialize_header n (legacy_layout v pb mr ts b nc) ht
         = Inr \<lparr> version = Some v, prev_block_hash = Some pb, merkle_root = Some mr,
                 timestamp = Some ts, bits = Some b, nheight = None, nonce = Some nc,
                 nonce64 = None, mix_hash = None, block_height = Some ht \<rparr>"
proof -
  define s where "s = legacy_layout v pb mr ts b nc"
  note u = assms(1,4,5,6)[THEN is_uint_32]
  note hp = is_hash256_D[OF assms(2)] and hm = is_hash256_D[OF assms(3)]
  note sl = slice_append_right slice_append_left slice_all length_le_bytes
  have len: "length s = 80" unfolding s_def using assms(2,3) by (rule length_legacy_layout)
  then have ne: "s \<noteq> []" by auto
  have f1: "slice s 0 4 = le_bytes 4 v"
    unfolding s_def legacy_layout_def by (simp add: sl)
  have f2: "slice s 4 36 = hash_bytes pb"
    unfolding s_def legacy_layout_def by (simp add: sl hp(2))
  have f3: "slice s 36 68 = hash_bytes mr"
    unfolding s_def legacy_layout_def by (simp add: sl hp(2) hm(2))
  have f4: "slice s 68 72 = le_bytes 4 ts"
    unfolding s_def legacy_layout_def by (simp add: sl hp(2) hm(2))
  have f5: "slice s 72 76 = le_bytes 4 b"
    unfolding s_def legacy_layout_def by (simp add: sl hp(2) hm(2))
  have f6: "slice s 76 80 = le_bytes 4 nc"
    unfolding s_def legacy_layout_def by (simp add: sl hp(2) hm(2))
  show ?thesis
    unfolding s_def[symmetric] deserialize_header_def
    using u ne len
    by (simp add: f1 f2 f3 f4 f5 f6 hp(3) hm(3) int_base16_le_bytes from_bytes_little_le_bytes
          bind_err_def LEGACY_HEADER_SIZE_def HEADER_SIZE_def)
qed

lemma deserialize_extended:
  assumes "is_uint 32 v" "is_hash256 pb" "is_hash256 mr" "is_uint 32 ts" "is_uint 32 b"
    "is_uint 32 nh" "is_uint 64 nc" "is_hash256 mx"
    "\<not> reads_as_padded_auxpow n v ht nc mx"
  shows "deserialize_header n (extended_layout v pb mr ts b nh nc mx) ht
         = Inr \<lparr> version = Some v, prev_block_hash = Some pb, merkle_root = Some mr,
                 timestamp = Some ts, bits = Some b, nheight = Some nh, nonce = Some nc,
                 nonce64 = None, mix_hash = Some mx, block_height = Some ht \<rparr>"
proof -
  define s where "s = extended_layout v pb mr ts b nh nc mx"
  note u = assms(1,4,5,6)[THEN is_uint_32] and u64 = assms(7)[THEN is_uint_64]
  note hp = is_hash256_D[OF assms(2)] and hm = is_hash256_D[OF assms(3)]
    and hx = is_hash256_D[OF assms(8)]
  note sl = slice_append_right slice_append_left slice_all length_le_bytes
  have len: "length s = 120" unfolding s_def using assms(2,3,8) by (rule length_extended_layout)
  then have ne: "s \<noteq> []" by auto
  have f1: "slice s 0 4 = le_bytes 4 v"
    unfolding s_def extended_layout_def by (simp add: sl)
  have f2: "slice s 4 36 = hash_bytes pb"
    unfolding s_def extended_layout_def by (simp add: sl hp(2))
  have f3: "slice s 36 68 = hash_bytes mr"
    unfolding s_def extended_layout_def by (simp add: sl hp(2) hm(2))
  have f4: "slice s 68 72 = le_bytes 4 ts"
    unfolding s_def extended_layout_def by (simp add: sl hp(2) hm(2))
  have f5: "slice s 72 76 = le_bytes 4 b"
    unfolding s_def extended_layout_def by (simp add: sl hp(2) hm(2))
  have f6: "slice s 76 80 = le_bytes 4 nh"
    unfolding s_def extended_layout_def by (simp add: sl hp(2) hm(2))
  have f7: "slice s 80 88 = le_bytes 8 nc"
    unfolding s_def extended_layout_def by (simp add: sl hp(2) hm(2))
  have f8: "slice s 88 120 = hash_bytes mx"
    unfolding s_def extended_layout_def by (simp add: sl hp(2) hm(2) hx(2))
  have tail: "drop 80 s = le_bytes 8 nc @ hash_bytes mx"
    unfolding s_def extended_layout_def by (simp add: length_le_bytes hp(2) hm(2))
  have np: "\<not> (ht \<ge> AuxPowActivationHeight n \<and> version_bit8 v \<and> drop 80 s = replicate 40 0)"
  proof
    assume a: "ht \<ge> AuxPowActivationHeight n \<and> version_bit8 v \<and> drop 80 s = replicate 40 0"
    have "replicate 40 (0::byte) = replicate 8 0 @ replicate 32 0"
      by (simp add: replicate_add[symmetric])
    with a tail have "le_bytes 8 nc @ hash_bytes mx = replicate 8 0 @ replicate 32 0" by simp
    then have "le_bytes 8 nc = replicate 8 0" "hash_bytes mx = replicate 32 0"
      by (simp_all add: length_le_bytes)
    with u64 have "nc = 0" "hash_bytes mx = replicate 32 0"
      using le_bytes_zero_imp[of nc 8] by simp_all
    with a assms(9) show False by (simp add: reads_as_padded_auxpow_def)
  qed
  show ?thesis
    unfolding s_def[symmetric] deserialize_header_def
    using u u64 ne len np
    by (simp add: f1 f2 f3 f4 f5 f6 f7 f8 hp(3) hm(3) hx(3) int_base16_le_bytes
          from_bytes_little_le_bytes bind_err_def LEGACY_HEADER_SIZE_def HEADER_SIZE_def)
qed

section \<open>Hashing and verification: proofs\<close>

lemma hash_raw_header_auxpow_unavailable:
  "\<not> SCRYPT_AVAILABLE k \<Longrightarrow>
   hash_raw_header_auxpow k (bytes_hex raw) = hash_encode (sha256d k (take 80 raw))"
  by (simp add: hash_raw_header_auxpow_def bfh_bytes_hex)

lemma verify_header_auxpow_branch:
  assumes "\<not> TESTNET n" "prev_block_hash hdr = Some prev" "version hdr = Some v"
    "version_bit8 v" "block_height hdr = Some ht" "ht \<ge> AuxPowActivationHeight n"
  shows "verify_header n k hdr prev target e skip =
           (if truthy e
            then bind_err (hash_header n k (Some hdr)) (\<lambda>hash.
                   if e \<noteq> Some hash then Inl (InvalidHeader HashMismatch) else Inr ())
            else Inr ())"
  using assms by (simp add: verify_header_def)

lemma verify_header_pow_branch:
  assumes "\<not> TESTNET n" "prev_block_hash hdr = Some prev" "version hdr = Some v"
    "block_height hdr = Some ht" "\<not> (version_bit8 v \<and> ht \<ge> AuxPowActivationHeight n)"
    "ht \<le> max_checkpoint n \<or> ht mod 10 = 0"
    "skip \<or> (target_to_bits target = Inr b \<and> bits hdr = Some b)"
    "hash_header n k (Some hdr) = Inr hh"
  shows "verify_header n k hdr prev target e skip =
           (if truthy e \<and> e \<noteq> Some hh then Inl (InvalidHeader HashMismatch)
            else bind_err (bfh hh) (\<lambda>hb.
                   if from_bytes_big hb > target then Inl (InvalidHeader InsufficientPow)
                   else Inr ()))"
proof -
  have c: "(if \<not> skip
            then bind_err (target_to_bits target) (\<lambda>b.
                   if Some b \<noteq> bits hdr then Inl (InvalidHeader BitsMismatch) else Inr ())
            else Inr ()) = Inr ()"
    using assms(7) by (auto simp: bind_err_def)
  have s: "(if ht > max_checkpoint n then ht mod 10 = 0 else True)"
    using assms(6) by auto
  show ?thesis
    unfolding verify_header_def Let_def
    using assms(1-5,8) s by (auto simp: c bind_err_def)
qed

section \<open>Retargeting: proofs\<close>



lemma mainnet_no_sentinel_low:
  "h < 338688 \<Longrightarrow> is_dgw_height_checkpoint (MeowcoinMainnet cps dgw aux) h = Inr None"
  by (simp add: is_dgw_height_checkpoint_def MeowcoinMainnet_def)

lemma mainnet_no_sentinel_meowpow:
  assumes "801212 \<le> h" "h \<le> 801391"
  shows "is_dgw_height_checkpoint (MeowcoinMainnet cps dgw aux) h = Inr None"
proof -
  have "h = (h - 800352) + 397 * 2016" by simp
  then have "h mod 2016 = ((h - 800352) + 397 * 2016) mod 2016" by simp
  also have "\<dots> = (h - 800352) mod 2016" by (rule mod_mult_self1)
  also have "\<dots> = h - 800352" using assms by (intro mod_pos_pos_trivial) simp_all
  finally have "h mod 2016 = h - 800352" .
  then have "h mod 2016 \<noteq> 0" "h mod 2016 \<noteq> 2015" using assms by simp_all
  then show ?thesis
    by (simp add: is_dgw_height_checkpoint_def MeowcoinMainnet_def Let_def)
qed




section \<open>Chunk ingestion: proofs\<close>

lemma max_checkpoint_nonneg: "0 \<le> max_checkpoint n"
  by (simp add: max_checkpoint_def)

lemma verify_chunk_empty:
  assumes "max_checkpoint n < start_height" "get_hash n k c (start_height - 1) = Inr prev"
  shows "verify_chunk n k c start_height [] = Inr ()"
proof -
  have "verify_chunk_loop n k c [] 0 start_height prev [] = Inr start_height"
    by (subst verify_chunk_loop.simps) simp
  then show ?thesis using assms by (simp add: verify_chunk_def bind_err_def)
qed

lemma convert_empty: "convert_to_kawpow_len n start_height [] = Inr []"
proof -
  have "convert_loop n [] 0 start_height [] = []"
    by (subst convert_loop.simps) simp
  then show ?thesis by (simp add: convert_to_kawpow_len_def)
qed

lemma write_nothing_truncates:
  assumes "sz = int (length content) div 120" "0 \<le> h" "h < sz"
  shows "write_file (Blockchain 0 None fh ph (Some content) sz) [] (nat (h * 120)) True
         = (Inr (), Blockchain 0 None fh ph (Some (take (nat (h * 120)) content)) h)"
proof -
  have "sz * 120 \<le> int (length content)" unfolding assms(1) by simp
  then have le: "nat (h * 120) \<le> length content" using assms(2,3) by linarith
  have ne: "int (nat (h * 120)) \<noteq> sz * 120" using assms(2,3) by simp
  have t: "file_truncate content (nat (h * 120)) = take (nat (h * 120)) content"
    using le by (simp add: file_truncate_def)
  have w: "file_write_at (take (nat (h * 120)) content) (nat (h * 120)) []
           = take (nat (h * 120)) content"
    using le by (simp add: file_write_at_def file_truncate_def)
  have s: "int (min (length content) (nat (h * 120))) div 120 = h"
    using le assms(2) by (simp add: min_def)
  show ?thesis
    using ne by (simp add: write_file_def t w update_size_def HEADER_SIZE_def s Let_def)
qed

lemma save_empty_chunk:
  assumes "sz = int (length content) div 120" "max_checkpoint n < h" "h < sz"
  shows "save_chunk n (Blockchain 0 None fh ph (Some content) sz) h []
         = (Inl (InvalidHeader EmptyHeader),
            Blockchain 0 None fh ph (Some (take (nat (h * 120)) content)) h)"
proof -
  have h0: "0 \<le> h" using assms(2) max_checkpoint_nonneg[of n] by linarith
  have w: "write_file (Blockchain 0 None fh ph (Some content) sz) [] (nat (h * 120)) True
         = (Inr (), Blockchain 0 None fh ph (Some (take (nat (h * 120)) content)) h)"
    using assms(1) h0 assms(3) by (rule write_nothing_truncates)
  have r: "read_header n (Blockchain 0 None fh ph (Some (take (nat (h * 120)) content)) h) h
           = Inr None"
    using h0 by simp
  have d: "deserialize_header n [] h = Inl (InvalidHeader EmptyHeader)"
    by (simp add: deserialize_header_def)
  show ?thesis
    unfolding save_chunk_def Let_def
    using h0 assms(2) by (simp add: convert_empty HEADER_SIZE_def w r d)
qed

text \<open>
  Claim C5, as amended. \<^const>\<open>bits_to_target\<close> raises InvalidHeader exactly on inputs
  outside the unsigned 32-bit range, on negative encodings (sign bit set with a non-zero
  value) and on over-range encodings, where over-range means, for a non-zero value,
  exponent > 34, or exponent > 33 with mantissa > 0xff, or exponent > 32 with mantissa
  > 0xffff. On every other input it returns the decoded value, which then fits 256 bits.
\<close>

theorem bits_to_target_raises_exactly:
  "bits_to_target b =
     (if b < 0 \<or> 2 ^ 32 \<le> b then Inl (InvalidHeader BitsNotUint32)
      else if compact_negative b then Inl (InvalidHeader TargetNegative)
      else if compact_over_range b then Inl (InvalidHeader TargetOverflown)
      else Inr (compact_value b))
   \<and> (bits_to_target b = Inr t \<longrightarrow> 0 \<le> t \<and> t < 2 ^ 256)"
proof (intro conjI impI)
  show "bits_to_target b =
     (if b < 0 \<or> 2 ^ 32 \<le> b then Inl (InvalidHeader BitsNotUint32)
      else if compact_negative b then Inl (InvalidHeader TargetNegative)
      else if compact_over_range b then Inl (InvalidHeader TargetOverflown)
      else Inr (compact_value b))"
    by (rule bits_to_target_arith)
next
  assume "bits_to_target b = Inr t"
  then have v: "t = compact_value b" and nr: "\<not> compact_over_range b"
    by (auto simp: bits_to_target_arith split: if_splits)
  show "0 \<le> t" unfolding v by (rule compact_value_nonneg)
  show "t < 2 ^ 256" unfolding v using nr by (rule compact_value_bound)
qed

theorem bits_to_target_raises_exactly_witness:
  "bits_to_target 0x1e00ffff = Inr 0xffff000000000000000000000000000000000000000000000000000000
   \<and> (0::int) \<le> 0xffff000000000000000000000000000000000000000000000000000000
   \<and> (0xffff000000000000000000000000000000000000000000000000000000::int) < 2 ^ 256"
proof -
  have h: "bits_to_target 0x1e00ffff
           = Inr 0xffff000000000000000000000000000000000000000000000000000000"
    by (simp add: bits_to_target_def)
  from bits_to_target_raises_exactly
         [of "0x1e00ffff" "0xffff000000000000000000000000000000000000000000000000000000"] h
  show ?thesis by blast
qed

text \<open>
  The thresholds as the specification words them do not describe the code: the encoding
  0x21010000 (exponent 33, mantissa 0x010000) is in the 32-bit range, not negative and not
  over-range in the specification's sense, yet \<^const>\<open>bits_to_target\<close> rejects it.
\<close>

theorem bits_to_target_claimed_thresholds_counterexample:
  "bits_to_target 0x21010000 = Inl (InvalidHeader TargetOverflown)
   \<and> \<not> claimed_over_range 0x21010000
   \<and> \<not> compact_negative 0x21010000
   \<and> (0::int) \<le> 0x21010000 \<and> (0x21010000::int) < 2 ^ 32"
  by (simp add: bits_to_target_def claimed_over_range_def compact_negative_def
        compact_exponent_def)

text \<open>
  Claim C4, as amended. Decoding after encoding returns \<open>t\<close> for every \<open>t\<close> that
  \<^const>\<open>bits_to_target\<close> returns on some encoding; encoding after decoding returns \<open>b\<close>
  for every \<open>b\<close> that \<^const>\<open>target_to_bits\<close> returns on some target (the canonical
  encodings).
\<close>

theorem compact_roundtrip:
  "(bits_to_target b = Inr t \<longrightarrow> decode_after_encode t = Inr t)
   \<and> (target_to_bits t' = Inr b' \<longrightarrow> encode_after_decode b' = Inr b')"
proof (intro conjI impI)
  assume "bits_to_target b = Inr t"
  from decode_encode_decode[OF this]
  show "decode_after_encode t = Inr t" by (auto simp: decode_after_encode_def)
next
  assume "target_to_bits t' = Inr b'"
  from encode_decode_encode[OF this]
  show "encode_after_decode b' = Inr b'" by (auto simp: encode_after_decode_def)
qed

theorem compact_roundtrip_witness:
  "bits_to_target 0x1e00ffff = Inr 0xffff000000000000000000000000000000000000000000000000000000
   \<and> decode_after_encode 0xffff000000000000000000000000000000000000000000000000000000
       = Inr 0xffff000000000000000000000000000000000000000000000000000000
   \<and> target_to_bits 256 = Inr 0x02010000
   \<and> encode_after_decode 0x02010000 = Inr 0x02010000"
proof -
  have h1: "bits_to_target 0x1e00ffff
            = Inr 0xffff000000000000000000000000000000000000000000000000000000"
    by (simp add: bits_to_target_def)
  have h2: "target_to_bits 256 = Inr 0x02010000"
    by code_simp
  from compact_roundtrip
         [of "0x1e00ffff" "0xffff000000000000000000000000000000000000000000000000000000"
             256 "0x02010000"] h1 h2
  show ?thesis by blast
qed

text \<open>
  A well-formed encoding that is not canonical does not survive the round trip:
  0x04000001 decodes to 256 without error, and 256 encodes to 0x02010000.
\<close>

theorem encode_after_decode_counterexample:
  "bits_to_target 0x04000001 = Inr 256
   \<and> encode_after_decode 0x04000001 = Inr 0x02010000
   \<and> encode_after_decode 0x04000001 \<noteq> Inr 0x04000001"
proof -
  have h1: "bits_to_target 0x04000001 = Inr 256"
    by (simp add: bits_to_target_def)
  have h2: "target_to_bits 256 = Inr 0x02010000"
    by code_simp
  show ?thesis by (simp add: encode_after_decode_def h1 h2)
qed

lemma sample_hashes:
  "is_hash256 sample_prev_hash" "is_hash256 sample_merkle_root" "is_hash256 sample_mix_hash"
  by (code_simp, code_simp, code_simp)

lemma sample_mix_nonzero: "hash_bytes sample_mix_hash \<noteq> replicate 32 0"
  by code_simp

text \<open>
  Claim C10. The output format of \<^const>\<open>serialize_header\<close> depends on the presence of the
  key \<open>nheight\<close> alone. A dict with \<open>nheight\<close> (and fields of the data model's types) is
  written in the 120-byte extended layout, 240 hex digits, with the 64-bit nonce taken
  from \<open>nonce64\<close> if present, else from \<open>nonce\<close>, else 0; a dict without \<open>nheight\<close> is
  written in the 80-byte layout, 160 hex digits, never padded. Height, version and
  timestamp are arbitrary in both cases.
\<close>

theorem serialize_header_format:
  "(is_uint 32 v \<and> is_hash256 pb \<and> is_hash256 mr \<and> is_uint 32 ts \<and> is_uint 32 b
      \<and> is_uint 32 nh \<and> is_hash256 mx
      \<and> is_uint 64 (case n64 of Some x \<Rightarrow> x | None \<Rightarrow> (case nc of Some x \<Rightarrow> x | None \<Rightarrow> 0))
    \<longrightarrow> serialize_header
          \<lparr> version = Some v, prev_block_hash = Some pb, merkle_root = Some mr,
            timestamp = Some ts, bits = Some b, nheight = Some nh, nonce = nc,
            nonce64 = n64, mix_hash = Some mx, block_height = ht \<rparr>
        = Inr (bytes_hex (extended_layout v pb mr ts b nh
                 (case n64 of Some x \<Rightarrow> x | None \<Rightarrow> (case nc of Some x \<Rightarrow> x | None \<Rightarrow> 0)) mx))
      \<and> length (bytes_hex (extended_layout v pb mr ts b nh
                 (case n64 of Some x \<Rightarrow> x | None \<Rightarrow> (case nc of Some x \<Rightarrow> x | None \<Rightarrow> 0)) mx))
          = 240)
   \<and> (is_uint 32 v \<and> is_hash256 pb \<and> is_hash256 mr \<and> is_uint 32 ts \<and> is_uint 32 b
      \<and> is_uint 32 nc'
    \<longrightarrow> serialize_header
          \<lparr> version = Some v, prev_block_hash = Some pb, merkle_root = Some mr,
            timestamp = Some ts, bits = Some b, nheight = None, nonce = Some nc',
            nonce64 = n64, mix_hash = mx', block_height = ht \<rparr>
        = Inr (bytes_hex (legacy_layout v pb mr ts b nc'))
      \<and> length (bytes_hex (legacy_layout v pb mr ts b nc')) = 160)"
  by (intro conjI impI)
     (simp_all add: serialize_extended serialize_legacy length_bytes_hex
        length_extended_layout length_legacy_layout)

theorem serialize_header_format_witness:
  "is_uint 32 0x30000100 \<and> is_hash256 sample_prev_hash \<and> is_hash256 sample_merkle_root
   \<and> is_uint 32 1700000000 \<and> is_uint 32 0x1b00ffff \<and> is_uint 32 900000
   \<and> is_hash256 sample_mix_hash \<and> is_uint 64 0x1122334455667788 \<and> is_uint 32 7
   \<and> serialize_header
          \<lparr> version = Some 0x30000100, prev_block_hash = Some sample_prev_hash,
            merkle_root = Some sample_merkle_root, timestamp = Some 1700000000,
            bits = Some 0x1b00ffff, nheight = Some 900000, nonce = Some 3,
            nonce64 = Some 0x1122334455667788, mix_hash = Some sample_mix_hash,
            block_height = Some 5 \<rparr>
        = Inr (bytes_hex (extended_layout 0x30000100 sample_prev_hash sample_merkle_root
                 1700000000 0x1b00ffff 900000 0x1122334455667788 sample_mix_hash))
   \<and> length (bytes_hex (extended_layout 0x30000100 sample_prev_hash sample_merkle_root
                 1700000000 0x1b00ffff 900000 0x1122334455667788 sample_mix_hash)) = 240
   \<and> serialize_header
          \<lparr> version = Some 0x30000100, prev_block_hash = Some sample_prev_hash,
            merkle_root = Some sample_merkle_root, timestamp = Some 1700000000,
            bits = Some 0x1b00ffff, nheight = None, nonce = Some 7,
            nonce64 = Some 0x1122334455667788, mix_hash = Some sample_mix_hash,
            block_height = Some 5 \<rparr>
        = Inr (bytes_hex (legacy_layout 0x30000100 sample_prev_hash sample_merkle_root
                 1700000000 0x1b00ffff 7))
   \<and> length (bytes_hex (legacy_layout 0x30000100 sample_prev_hash sample_merkle_root
                 1700000000 0x1b00ffff 7)) = 160"
proof -
  have u: "is_uint 32 0x30000100" "is_uint 32 1700000000" "is_uint 32 0x1b00ffff"
    "is_uint 32 900000" "is_uint 64 0x1122334455667788" "is_uint 32 7"
    by (simp_all add: is_uint_def)
  from serialize_header_format
         [where v = "0x30000100" and pb = sample_prev_hash and mr = sample_merkle_root
            and ts = 1700000000 and b = "0x1b00ffff" and nh = 900000 and mx = sample_mix_hash
            and ?n64.0 = "Some 0x1122334455667788" and nc = "Some 3" and ht = "Some 5"
            and nc' = 7 and mx' = "Some sample_mix_hash"]
       u sample_hashes
  show ?thesis by simp
qed

text \<open>
  Claim C8, as amended. A header dict in the shape \<^const>\<open>deserialize_header\<close> produces
  (the nonce, 32-bit or 64-bit, under the key \<open>nonce\<close> and no key \<open>nonce64\<close>), with fields
  of the data model's types, is returned unchanged by decoding its encoding at its own
  height; this holds for legacy and AuxPOW headers, and for extended headers other than
  those that read back as padded AuxPOW records. The encoding of a legacy or AuxPOW header
  is exactly 80 bytes, that of an extended header exactly 120 bytes.
\<close>

theorem header_roundtrip:
  "(is_uint 32 v \<and> is_hash256 pb \<and> is_hash256 mr \<and> is_uint 32 ts \<and> is_uint 32 b
      \<and> is_uint 32 nc'
    \<longrightarrow> decode_encoded n
          \<lparr> version = Some v, prev_block_hash = Some pb, merkle_root = Some mr,
            timestamp = Some ts, bits = Some b, nheight = None, nonce = Some nc',
            nonce64 = None, mix_hash = None, block_height = Some ht \<rparr>
        = Inr \<lparr> version = Some v, prev_block_hash = Some pb, merkle_root = Some mr,
                timestamp = Some ts, bits = Some b, nheight = None, nonce = Some nc',
                nonce64 = None, mix_hash = None, block_height = Some ht \<rparr>
      \<and> bind_err (serialize_header
          \<lparr> version = Some v, prev_block_hash = Some pb, merkle_root = Some mr,
            timestamp = Some ts, bits = Some b, nheight = None, nonce = Some nc',
            nonce64 = None, mix_hash = None, block_height = Some ht \<rparr>) bfh
        = Inr (legacy_layout v pb mr ts b nc')
      \<and> length (legacy_layout v pb mr ts b nc') = 80)
   \<and> (is_uint 32 v \<and> is_hash256 pb \<and> is_hash256 mr \<and> is_uint 32 ts \<and> is_uint 32 b
      \<and> is_uint 32 nh \<and> is_uint 64 nc \<and> is_hash256 mx
      \<and> \<not> reads_as_padded_auxpow n v ht nc mx
    \<longrightarrow> decode_encoded n
          \<lparr> version = Some v, prev_block_hash = Some pb, merkle_root = Some mr,
            timestamp = Some ts, bits = Some b, nheight = Some nh, nonce = Some nc,
            nonce64 = None, mix_hash = Some mx, block_height = Some ht \<rparr>
        = Inr \<lparr> version = Some v, prev_block_hash = Some pb, merkle_root = Some mr,
                timestamp = Some ts, bits = Some b, nheight = Some nh, nonce = Some nc,
                nonce64 = None, mix_hash = Some mx, block_height = Some ht \<rparr>
      \<and> bind_err (serialize_header
          \<lparr> version = Some v, prev_block_hash = Some pb, merkle_root = Some mr,
            timestamp = Some ts, bits = Some b, nheight = Some nh, nonce = Some nc,
            nonce64 = None, mix_hash = Some mx, block_height = Some ht \<rparr>) bfh
        = Inr (extended_layout v pb mr ts b nh nc mx)
      \<and> length (extended_layout v pb mr ts b nh nc mx) = 120)"
proof (intro conjI impI)
  assume a: "is_uint 32 v \<and> is_hash256 pb \<and> is_hash256 mr \<and> is_uint 32 ts \<and> is_uint 32 b
      \<and> is_uint 32 nc'"
  let ?h = "\<lparr> version = Some v, prev_block_hash = Some pb, merkle_root = Some mr,
            timestamp = Some ts, bits = Some b, nheight = None, nonce = Some nc',
            nonce64 = None, mix_hash = None, block_height = Some ht \<rparr>"
  have s: "serialize_header ?h = Inr (bytes_hex (legacy_layout v pb mr ts b nc'))"
    using a by (intro serialize_legacy) simp_all
  have d: "deserialize_header n (legacy_layout v pb mr ts b nc') ht = Inr ?h"
    using a by (intro deserialize_legacy) simp_all
  show "decode_encoded n ?h = Inr ?h"
    by (simp add: decode_encoded_def s bfh_bytes_hex d bind_err_def item_def)
  show "bind_err (serialize_header ?h) bfh = Inr (legacy_layout v pb mr ts b nc')"
    by (simp add: s bfh_bytes_hex bind_err_def)
  show "length (legacy_layout v pb mr ts b nc') = 80"
    using a by (simp add: length_legacy_layout)
next
  assume a: "is_uint 32 v \<and> is_hash256 pb \<and> is_hash256 mr \<and> is_uint 32 ts \<and> is_uint 32 b
      \<and> is_uint 32 nh \<and> is_uint 64 nc \<and> is_hash256 mx
      \<and> \<not> reads_as_padded_auxpow n v ht nc mx"
  let ?h = "\<lparr> version = Some v, prev_block_hash = Some pb, merkle_root = Some mr,
            timestamp = Some ts, bits = Some b, nheight = Some nh, nonce = Some nc,
            nonce64 = None, mix_hash = Some mx, block_height = Some ht \<rparr>"
  have "serialize_header ?h = Inr (bytes_hex (extended_layout v pb mr ts b nh
          (case None of Some x \<Rightarrow> x | None \<Rightarrow> (case Some nc of Some x \<Rightarrow> x | None \<Rightarrow> 0)) mx))"
    using a by (intro serialize_extended) simp_all
  then have s: "serialize_header ?h = Inr (bytes_hex (extended_layout v pb mr ts b nh nc mx))"
    by simp
  have d: "deserialize_header n (extended_layout v pb mr ts b nh nc mx) ht = Inr ?h"
    using a by (intro deserialize_extended) simp_all
  show "decode_encoded n ?h = Inr ?h"
    by (simp add: decode_encoded_def s bfh_bytes_hex d bind_err_def item_def)
  show "bind_err (serialize_header ?h) bfh = Inr (extended_layout v pb mr ts b nh nc mx)"
    by (simp add: s bfh_bytes_hex bind_err_def)
  show "length (extended_layout v pb mr ts b nh nc mx) = 120"
    using a by (simp add: length_extended_layout)
qed

theorem header_roundtrip_witness:
  "is_uint 32 0x30000100 \<and> is_hash256 sample_prev_hash \<and> is_hash256 sample_merkle_root
   \<and> is_uint 32 1700000000 \<and> is_uint 32 0x1b00ffff \<and> is_uint 32 7 \<and> is_uint 32 900000
   \<and> is_uint 64 0x1122334455667788 \<and> is_hash256 sample_mix_hash
   \<and> \<not> reads_as_padded_auxpow (MeowcoinMainnet [] [] 1000000) 0x30000100 900000
         0x1122334455667788 sample_mix_hash
   \<and> decode_encoded (MeowcoinMainnet [] [] 1000000)
          \<lparr> version = Some 0x30000100, prev_block_hash = Some sample_prev_hash,
            merkle_root = Some sample_merkle_root, timestamp = Some 1700000000,
            bits = Some 0x1b00ffff, nheight = None, nonce = Some 7,
            nonce64 = None, mix_hash = None, block_height = Some 900000 \<rparr>
        = Inr \<lparr> version = Some 0x30000100, prev_block_hash = Some sample_prev_hash,
            merkle_root = Some sample_merkle_root, timestamp = Some 1700000000,
            bits = Some 0x1b00ffff, nheight = None, nonce = Some 7,
            nonce64 = None, mix_hash = None, block_height = Some 900000 \<rparr>
   \<and> length (legacy_layout 0x30000100 sample_prev_hash sample_merkle_root 1700000000
               0x1b00ffff 7) = 80
   \<and> decode_encoded (MeowcoinMainnet [] [] 1000000)
          \<lparr> version = Some 0x30000100, prev_block_hash = Some sample_prev_hash,
            merkle_root = Some sample_merkle_root, timestamp = Some 1700000000,
            bits = Some 0x1b00ffff, nheight = Some 900000,
            nonce = Some 0x1122334455667788, nonce64 = None,
            mix_hash = Some sample_mix_hash, block_height = Some 900000 \<rparr>
        = Inr \<lparr> version = Some 0x30000100, prev_block_hash = Some sample_prev_hash,
            merkle_root = Some sample_merkle_root, timestamp = Some 1700000000,
            bits = Some 0x1b00ffff, nheight = Some 900000,
            nonce = Some 0x1122334455667788, nonce64 = None,
            mix_hash = Some sample_mix_hash, block_height = Some 900000 \<rparr>
   \<and> length (extended_layout 0x30000100 sample_prev_hash sample_merkle_root 1700000000
               0x1b00ffff 900000 0x1122334455667788 sample_mix_hash) = 120"
proof -
  have u: "is_uint 32 0x30000100" "is_uint 32 1700000000" "is_uint 32 0x1b00ffff"
    "is_uint 32 900000" "is_uint 64 0x1122334455667788" "is_uint 32 7"
    by (simp_all add: is_uint_def)
  have np: "\<not> reads_as_padded_auxpow (MeowcoinMainnet [] [] 1000000) 0x30000100 900000
         0x1122334455667788 sample_mix_hash"
    by (simp add: reads_as_padded_auxpow_def)
  from header_roundtrip
         [where n = "MeowcoinMainnet [] [] 1000000" and v = "0x30000100"
            and pb = sample_prev_hash and mr = sample_merkle_root
            and ts = 1700000000 and b = "0x1b00ffff" and nh = 900000 and mx = sample_mix_hash
            and nc = "0x1122334455667788" and ht = 900000 and nc' = 7]
       u sample_hashes np
  show ?thesis by simp
qed

text \<open>
  An extended header that carries its nonce under the key \<open>nonce64\<close>, as the data model
  of the specification has it, is accepted by \<^const>\<open>serialize_header\<close> but does not come
  back: the decoder stores the 64-bit nonce under \<open>nonce\<close>.
\<close>

theorem header_roundtrip_nonce64_counterexample:
  "decode_encoded (MeowcoinMainnet [] [] 1000000)
          \<lparr> version = Some 0x30000000, prev_block_hash = Some sample_prev_hash,
            merkle_root = Some sample_merkle_root, timestamp = Some 1700000000,
            bits = Some 0x1b00ffff, nheight = Some 900000, nonce = None,
            nonce64 = Some 5, mix_hash = Some sample_mix_hash,
            block_height = Some 900000 \<rparr>
        = Inr \<lparr> version = Some 0x30000000, prev_block_hash = Some sample_prev_hash,
            merkle_root = Some sample_merkle_root, timestamp = Some 1700000000,
            bits = Some 0x1b00ffff, nheight = Some 900000, nonce = Some 5,
            nonce64 = None, mix_hash = Some sample_mix_hash,
            block_height = Some 900000 \<rparr>
   \<and> decode_encoded (MeowcoinMainnet [] [] 1000000)
          \<lparr> version = Some 0x30000000, prev_block_hash = Some sample_prev_hash,
            merkle_root = Some sample_merkle_root, timestamp = Some 1700000000,
            bits = Some 0x1b00ffff, nheight = Some 900000, nonce = None,
            nonce64 = Some 5, mix_hash = Some sample_mix_hash,
            block_height = Some 900000 \<rparr>
        \<noteq> Inr \<lparr> version = Some 0x30000000, prev_block_hash = Some sample_prev_hash,
            merkle_root = Some sample_merkle_root, timestamp = Some 1700000000,
            bits = Some 0x1b00ffff, nheight = Some 900000, nonce = None,
            nonce64 = Some 5, mix_hash = Some sample_mix_hash,
            block_height = Some 900000 \<rparr>"
proof -
  let ?h = "\<lparr> version = Some 0x30000000, prev_block_hash = Some sample_prev_hash,
            merkle_root = Some sample_merkle_root, timestamp = Some 1700000000,
            bits = Some 0x1b00ffff, nheight = Some 900000, nonce = None,
            nonce64 = Some 5, mix_hash = Some sample_mix_hash,
            block_height = Some 900000 \<rparr>"
  have u: "is_uint 32 0x30000000" "is_uint 32 1700000000" "is_uint 32 0x1b00ffff"
    "is_uint 32 900000" "is_uint 64 5"
    by (simp_all add: is_uint_def)
  have "serialize_header ?h = Inr (bytes_hex (extended_layout 0x30000000 sample_prev_hash
          sample_merkle_root 1700000000 0x1b00ffff 900000
          (case Some 5 of Some x \<Rightarrow> x | None \<Rightarrow> (case None of Some x \<Rightarrow> x | None \<Rightarrow> 0))
          sample_mix_hash))"
    using u sample_hashes by (intro serialize_extended) simp_all
  then have s: "serialize_header ?h = Inr (bytes_hex (extended_layout 0x30000000
          sample_prev_hash sample_merkle_root 1700000000 0x1b00ffff 900000 5 sample_mix_hash))"
    by simp
  have d: "deserialize_header (MeowcoinMainnet [] [] 1000000)
             (extended_layout 0x30000000 sample_prev_hash sample_merkle_root 1700000000
                0x1b00ffff 900000 5 sample_mix_hash) 900000
           = Inr \<lparr> version = Some 0x30000000, prev_block_hash = Some sample_prev_hash,
               merkle_root = Some sample_merkle_root, timestamp = Some 1700000000,
               bits = Some 0x1b00ffff, nheight = Some 900000, nonce = Some 5,
               nonce64 = None, mix_hash = Some sample_mix_hash,
               block_height = Some 900000 \<rparr>"
    using u sample_hashes
    by (intro deserialize_extended) (simp_all add: reads_as_padded_auxpow_def)
  have e: "decode_encoded (MeowcoinMainnet [] [] 1000000) ?h
           = Inr \<lparr> version = Some 0x30000000, prev_block_hash = Some sample_prev_hash,
               merkle_root = Some sample_merkle_root, timestamp = Some 1700000000,
               bits = Some 0x1b00ffff, nheight = Some 900000, nonce = Some 5,
               nonce64 = None, mix_hash = Some sample_mix_hash,
               block_height = Some 900000 \<rparr>"
    by (simp add: decode_encoded_def s bfh_bytes_hex d bind_err_def item_def)
  show ?thesis unfolding e by simp
qed

text \<open>
  Claim C1: what the code does where the claim asks for an error. When the start-up probe
  left Scrypt unavailable, the hash of an AuxPOW header (version bit 8 at or after the
  activation height) is computed without error, as the SHA-256d of its 80 bytes.
\<close>

theorem auxpow_hash_falls_back_to_sha256d:
  "\<not> SCRYPT_AVAILABLE k \<and> version_bit8 v \<and> ht \<ge> AuxPowActivationHeight n
   \<and> is_uint 32 v \<and> is_hash256 pb \<and> is_hash256 mr \<and> is_uint 32 ts \<and> is_uint 32 b
   \<and> is_uint 32 nc
   \<longrightarrow> hash_header n k (Some
          \<lparr> version = Some v, prev_block_hash = Some pb, merkle_root = Some mr,
            timestamp = Some ts, bits = Some b, nheight = None, nonce = Some nc,
            nonce64 = None, mix_hash = None, block_height = Some ht \<rparr>)
       = Inr (hash_encode (sha256d k (legacy_layout v pb mr ts b nc)))"
proof
  assume a: "\<not> SCRYPT_AVAILABLE k \<and> version_bit8 v \<and> ht \<ge> AuxPowActivationHeight n
   \<and> is_uint 32 v \<and> is_hash256 pb \<and> is_hash256 mr \<and> is_uint 32 ts \<and> is_uint 32 b
   \<and> is_uint 32 nc"
  let ?h = "\<lparr> version = Some v, prev_block_hash = Some pb, merkle_root = Some mr,
            timestamp = Some ts, bits = Some b, nheight = None, nonce = Some nc,
            nonce64 = None, mix_hash = None, block_height = Some ht \<rparr>"
  have s: "serialize_header ?h = Inr (bytes_hex (legacy_layout v pb mr ts b nc))"
    using a by (intro serialize_legacy) simp_all
  have l: "length (legacy_layout v pb mr ts b nc) = 80"
    using a by (simp add: length_legacy_layout)
  show "hash_header n k (Some ?h)
        = Inr (hash_encode (sha256d k (legacy_layout v pb mr ts b nc)))"
    using a by (simp add: hash_header_def s bind_err_def hash_raw_header_auxpow_unavailable l)
qed

theorem auxpow_hash_falls_back_to_sha256d_witness:
  "\<not> SCRYPT_AVAILABLE sample_kernels \<and> version_bit8 0x30000100
   \<and> 1000005 \<ge> AuxPowActivationHeight (MeowcoinMainnet [] [] 1000000)
   \<and> is_uint 32 0x30000100 \<and> is_hash256 sample_prev_hash \<and> is_hash256 sample_merkle_root
   \<and> is_uint 32 1800000000 \<and> is_uint 32 0x1e00ffff \<and> is_uint 32 7
   \<and> hash_header (MeowcoinMainnet [] [] 1000000) sample_kernels (Some sample_auxpow_header)
       = Inr (hash_encode (sha256d sample_kernels
               (legacy_layout 0x30000100 sample_prev_hash sample_merkle_root 1800000000
                  0x1e00ffff 7)))
   \<and> hash_encode (sha256d sample_kernels
               (legacy_layout 0x30000100 sample_prev_hash sample_merkle_root 1800000000
                  0x1e00ffff 7))
       = ''aaaaaaaaaaaaaaaaaaaaaaaaaaaaaaaaaaaaaaaaaaaaaaaaaaaaaaaaaaaaaaaa''"
proof -
  have u: "is_uint 32 0x30000100" "is_uint 32 1800000000" "is_uint 32 0x1e00ffff"
    "is_uint 32 7"
    by (simp_all add: is_uint_def)
  have k: "\<not> SCRYPT_AVAILABLE sample_kernels"
    by (simp add: SCRYPT_AVAILABLE_def sample_kernels_def)
  have v: "version_bit8 0x30000100" by (simp add: version_bit8_def)
  have a: "1000005 \<ge> AuxPowActivationHeight (MeowcoinMainnet [] [] 1000000)"
    by (simp add: MeowcoinMainnet_def)
  have e: "hash_encode (sha256d sample_kernels
               (legacy_layout 0x30000100 sample_prev_hash sample_merkle_root 1800000000
                  0x1e00ffff 7))
       = ''aaaaaaaaaaaaaaaaaaaaaaaaaaaaaaaaaaaaaaaaaaaaaaaaaaaaaaaaaaaaaaaa''"
    by code_simp
  from auxpow_hash_falls_back_to_sha256d
         [where k = sample_kernels and n = "MeowcoinMainnet [] [] 1000000"
            and v = "0x30000100" and ht = 1000005 and pb = sample_prev_hash
            and mr = sample_merkle_root and ts = 1800000000 and b = "0x1e00ffff" and nc = 7]
       u k v a e sample_hashes(1,2)
  show ?thesis by (simp add: sample_auxpow_header_def)
qed

text \<open>
  Claim C2. Off testnet, a header at or after the AuxPOW activation height whose version
  has bit 8 set and whose previous hash is the given one is accepted whatever its bits
  and the target, when no expected hash is supplied (\<^verbatim>\<open>None\<close>, or the empty string, which
  Python treats alike). When one is supplied the header hash is computed and compared:
  equal hashes are accepted, a mismatch raises InvalidHeader.
\<close>

theorem verify_header_auxpow_short_circuit:
  "\<not> TESTNET n \<and> prev_block_hash hdr = Some prev \<and> version hdr = Some v \<and> version_bit8 v
   \<and> block_height hdr = Some ht \<and> ht \<ge> AuxPowActivationHeight n
   \<longrightarrow> (\<not> truthy e \<longrightarrow> verify_header n k hdr prev target e skip = Inr ())
     \<and> (truthy e \<and> hash_header n k (Some hdr) = Inr hh
          \<longrightarrow> verify_header n k hdr prev target e skip
              = (if e = Some hh then Inr () else Inl (InvalidHeader HashMismatch)))"
proof (intro impI conjI)
  assume a: "\<not> TESTNET n \<and> prev_block_hash hdr = Some prev \<and> version hdr = Some v
     \<and> version_bit8 v \<and> block_height hdr = Some ht \<and> ht \<ge> AuxPowActivationHeight n"
  then have b: "verify_header n k hdr prev target e skip =
           (if truthy e
            then bind_err (hash_header n k (Some hdr)) (\<lambda>hash.
                   if e \<noteq> Some hash then Inl (InvalidHeader HashMismatch) else Inr ())
            else Inr ())"
    by (intro verify_header_auxpow_branch[where v = v and ht = ht]) auto
  {
    assume "\<not> truthy e"
    then show "verify_header n k hdr prev target e skip = Inr ()" by (simp add: b)
  }
  {
    assume "truthy e \<and> hash_header n k (Some hdr) = Inr hh"
    then show "verify_header n k hdr prev target e skip
              = (if e = Some hh then Inr () else Inl (InvalidHeader HashMismatch))"
      by (simp add: b bind_err_def)
  }
qed

theorem verify_header_auxpow_short_circuit_witness:
  "\<not> TESTNET (MeowcoinMainnet [] [] 1000000)
   \<and> prev_block_hash sample_auxpow_header = Some sample_prev_hash
   \<and> version sample_auxpow_header = Some 0x30000100 \<and> version_bit8 0x30000100
   \<and> block_height sample_auxpow_header = Some 1000005
   \<and> 1000005 \<ge> AuxPowActivationHeight (MeowcoinMainnet [] [] 1000000)
   \<and> truthy (Some ''00'')
   \<and> hash_header (MeowcoinMainnet [] [] 1000000) sample_kernels (Some sample_auxpow_header)
       = Inr ''aaaaaaaaaaaaaaaaaaaaaaaaaaaaaaaaaaaaaaaaaaaaaaaaaaaaaaaaaaaaaaaa''
   \<and> verify_header (MeowcoinMainnet [] [] 1000000) sample_kernels sample_auxpow_header
        sample_prev_hash 0 None False = Inr ()
   \<and> verify_header (MeowcoinMainnet [] [] 1000000) sample_kernels sample_auxpow_header
        sample_prev_hash 0 (Some ''00'') False = Inl (InvalidHeader HashMismatch)"
proof -
  have f: "\<not> TESTNET (MeowcoinMainnet [] [] 1000000)"
    "prev_block_hash sample_auxpow_header = Some sample_prev_hash"
    "version sample_auxpow_header = Some 0x30000100" "version_bit8 0x30000100"
    "block_height sample_auxpow_header = Some 1000005"
    "1000005 \<ge> AuxPowActivationHeight (MeowcoinMainnet [] [] 1000000)"
    "truthy (Some ''00'')" "\<not> truthy None"
    by (simp_all add: MeowcoinMainnet_def sample_auxpow_header_def version_bit8_def truthy_def)
  have h: "hash_header (MeowcoinMainnet [] [] 1000000) sample_kernels
             (Some sample_auxpow_header)
           = Inr ''aaaaaaaaaaaaaaaaaaaaaaaaaaaaaaaaaaaaaaaaaaaaaaaaaaaaaaaaaaaaaaaa''"
    by code_simp
  from verify_header_auxpow_short_circuit
         [where n = "MeowcoinMainnet [] [] 1000000" and hdr = sample_auxpow_header
            and prev = sample_prev_hash and v = "0x30000100" and ht = 1000005
            and e = None and k = sample_kernels and target = 0 and skip = False]
       f
  have r1: "verify_header (MeowcoinMainnet [] [] 1000000) sample_kernels
              sample_auxpow_header sample_prev_hash 0 None False = Inr ()"
    by simp
  from verify_header_auxpow_short_circuit
         [where n = "MeowcoinMainnet [] [] 1000000" and hdr = sample_auxpow_header
            and prev = sample_prev_hash and v = "0x30000100" and ht = 1000005
            and e = "Some ''00''" and k = sample_kernels and target = 0 and skip = False
            and hh = "''aaaaaaaaaaaaaaaaaaaaaaaaaaaaaaaaaaaaaaaaaaaaaaaaaaaaaaaaaaaaaaaa''"]
       f h
  have r2: "verify_header (MeowcoinMainnet [] [] 1000000) sample_kernels
              sample_auxpow_header sample_prev_hash 0 (Some ''00'') False
            = Inl (InvalidHeader HashMismatch)"
    by simp
  show ?thesis using f h r1 r2 by simp
qed

text \<open>
  Claim C9, as amended. \<^const>\<open>verify_header\<close> compares the header hash with the expected
  hash before it compares it with the target. For a non-AuxPOW header off testnet, at a
  height where proof of work is validated and with the bits check passed or skipped, a
  supplied expected hash that differs from the header hash raises the hash-mismatch
  InvalidHeader whatever the target; insufficient proof of work is raised only when no
  expected hash is supplied or it matches, and the hash as a big-endian number exceeds
  the target.
\<close>

theorem verify_header_expected_hash_before_pow:
  "\<not> TESTNET n \<and> prev_block_hash hdr = Some prev \<and> version hdr = Some v
   \<and> block_height hdr = Some ht \<and> \<not> (version_bit8 v \<and> ht \<ge> AuxPowActivationHeight n)
   \<and> (ht \<le> max_checkpoint n \<or> ht mod 10 = 0)
   \<and> (skip \<or> (target_to_bits target = Inr b \<and> bits hdr = Some b))
   \<and> hash_header n k (Some hdr) = Inr hh \<and> bfh hh = Inr hb
   \<longrightarrow> verify_header n k hdr prev target e skip
       = (if truthy e \<and> e \<noteq> Some hh then Inl (InvalidHeader HashMismatch)
          else if from_bytes_big hb > target then Inl (InvalidHeader InsufficientPow)
          else Inr ())"
proof
  assume a: "\<not> TESTNET n \<and> prev_block_hash hdr = Some prev \<and> version hdr = Some v
   \<and> block_height hdr = Some ht \<and> \<not> (version_bit8 v \<and> ht \<ge> AuxPowActivationHeight n)
   \<and> (ht \<le> max_checkpoint n \<or> ht mod 10 = 0)
   \<and> (skip \<or> (target_to_bits target = Inr b \<and> bits hdr = Some b))
   \<and> hash_header n k (Some hdr) = Inr hh \<and> bfh hh = Inr hb"
  then have "verify_header n k hdr prev target e skip =
           (if truthy e \<and> e \<noteq> Some hh then Inl (InvalidHeader HashMismatch)
            else bind_err (bfh hh) (\<lambda>hb.
                   if from_bytes_big hb > target then Inl (InvalidHeader InsufficientPow)
                   else Inr ()))"
    by (intro verify_header_pow_branch[where v = v and ht = ht and b = b]) auto
  with a show "verify_header n k hdr prev target e skip
       = (if truthy e \<and> e \<noteq> Some hh then Inl (InvalidHeader HashMismatch)
          else if from_bytes_big hb > target then Inl (InvalidHeader InsufficientPow)
          else Inr ())"
    by (simp add: bind_err_def)
qed

lemma sample_legacy_hash:
  "hash_header (MeowcoinMainnet [] [] 1000000) sample_kernels (Some sample_legacy_header)
   = Inr ''ffffffffffffffffffffffffffffffffffffffffffffffffffffffffffffffff''"
  by code_simp

lemma sample_legacy_hash_bytes:
  "bfh ''ffffffffffffffffffffffffffffffffffffffffffffffffffffffffffffffff''
   = Inr (replicate 32 0xff)"
  by code_simp

lemma sample_legacy_hash_above_target:
  "from_bytes_big (replicate 32 0xff)
   > 0xffff000000000000000000000000000000000000000000000000000000"
  by code_simp

lemma sample_target_bits:
  "target_to_bits 0xffff000000000000000000000000000000000000000000000000000000
   = Inr 0x1e00ffff"
  by code_simp

theorem verify_header_expected_hash_before_pow_witness:
  "\<not> TESTNET (MeowcoinMainnet [] [] 1000000)
   \<and> prev_block_hash sample_legacy_header = Some sample_prev_hash
   \<and> version sample_legacy_header = Some 0x30000000
   \<and> block_height sample_legacy_header = Some 5
   \<and> \<not> (version_bit8 0x30000000
        \<and> 5 \<ge> AuxPowActivationHeight (MeowcoinMainnet [] [] 1000000))
   \<and> 5 \<le> max_checkpoint (MeowcoinMainnet [] [] 1000000)
   \<and> target_to_bits 0xffff000000000000000000000000000000000000000000000000000000
       = Inr 0x1e00ffff
   \<and> bits sample_legacy_header = Some 0x1e00ffff
   \<and> hash_header (MeowcoinMainnet [] [] 1000000) sample_kernels (Some sample_legacy_header)
       = Inr ''ffffffffffffffffffffffffffffffffffffffffffffffffffffffffffffffff''
   \<and> bfh ''ffffffffffffffffffffffffffffffffffffffffffffffffffffffffffffffff''
       = Inr (replicate 32 0xff)
   \<and> verify_header (MeowcoinMainnet [] [] 1000000) sample_kernels sample_legacy_header
        sample_prev_hash 0xffff000000000000000000000000000000000000000000000000000000
        (Some ''00'') False
       = Inl (InvalidHeader HashMismatch)
   \<and> verify_header (MeowcoinMainnet [] [] 1000000) sample_kernels sample_legacy_header
        sample_prev_hash 0xffff000000000000000000000000000000000000000000000000000000
        None False
       = Inl (InvalidHeader InsufficientPow)"
proof -
  have f: "\<not> TESTNET (MeowcoinMainnet [] [] 1000000)"
    "prev_block_hash sample_legacy_header = Some sample_prev_hash"
    "version sample_legacy_header = Some 0x30000000"
    "block_height sample_legacy_header = Some 5"
    "\<not> (version_bit8 0x30000000
        \<and> 5 \<ge> AuxPowActivationHeight (MeowcoinMainnet [] [] 1000000))"
    "5 \<le> max_checkpoint (MeowcoinMainnet [] [] 1000000)"
    "bits sample_legacy_header = Some 0x1e00ffff"
    by (simp_all add: MeowcoinMainnet_def sample_legacy_header_def version_bit8_def
          max_checkpoint_def)
  have t: "truthy (Some ''00'')" "\<not> truthy None"
    "Some ''00'' \<noteq> Some ''ffffffffffffffffffffffffffffffffffffffffffffffffffffffffffffffff''"
    by (simp_all add: truthy_def)
  from verify_header_expected_hash_before_pow
         [where n = "MeowcoinMainnet [] [] 1000000" and hdr = sample_legacy_header
            and prev = sample_prev_hash and v = "0x30000000" and ht = 5
            and e = "Some ''00''" and k = sample_kernels and skip = False
            and target = "0xffff000000000000000000000000000000000000000000000000000000"
            and b = "0x1e00ffff" and hb = "replicate 32 0xff"
            and hh = "''ffffffffffffffffffffffffffffffffffffffffffffffffffffffffffffffff''"]
       f t sample_legacy_hash sample_legacy_hash_bytes sample_target_bits
  have r1: "verify_header (MeowcoinMainnet [] [] 1000000) sample_kernels
        sample_legacy_header sample_prev_hash
        0xffff000000000000000000000000000000000000000000000000000000 (Some ''00'') False
       = Inl (InvalidHeader HashMismatch)"
    by simp
  from verify_header_expected_hash_before_pow
         [where n = "MeowcoinMainnet [] [] 1000000" and hdr = sample_legacy_header
            and prev = sample_prev_hash and v = "0x30000000" and ht = 5
            and e = None and k = sample_kernels and skip = False
            and target = "0xffff000000000000000000000000000000000000000000000000000000"
            and b = "0x1e00ffff" and hb = "replicate 32 0xff"
            and hh = "''ffffffffffffffffffffffffffffffffffffffffffffffffffffffffffffffff''"]
       f t sample_legacy_hash sample_legacy_hash_bytes sample_target_bits
       sample_legacy_hash_above_target
  have r2: "verify_header (MeowcoinMainnet [] [] 1000000) sample_kernels
        sample_legacy_header sample_prev_hash
        0xffff000000000000000000000000000000000000000000000000000000 None False
       = Inl (InvalidHeader InsufficientPow)"
    by simp
  show ?thesis
    using f sample_legacy_hash sample_legacy_hash_bytes sample_target_bits r1 r2 by simp
qed

text \<open>
  A header whose hash both exceeds the target and differs from the supplied expected
  hash: the failure raised is the hash mismatch, not insufficient proof of work.
\<close>

theorem verify_header_pow_first_counterexample:
  "hash_header (MeowcoinMainnet [] [] 1000000) sample_kernels (Some sample_legacy_header)
     = Inr ''ffffffffffffffffffffffffffffffffffffffffffffffffffffffffffffffff''
   \<and> bfh ''ffffffffffffffffffffffffffffffffffffffffffffffffffffffffffffffff''
       = Inr (replicate 32 0xff)
   \<and> from_bytes_big (replicate 32 0xff)
       > 0xffff000000000000000000000000000000000000000000000000000000
   \<and> verify_header (MeowcoinMainnet [] [] 1000000) sample_kernels sample_legacy_header
        sample_prev_hash 0xffff000000000000000000000000000000000000000000000000000000
        (Some ''00'') False
       = Inl (InvalidHeader HashMismatch)
   \<and> verify_header (MeowcoinMainnet [] [] 1000000) sample_kernels sample_legacy_header
        sample_prev_hash 0xffff000000000000000000000000000000000000000000000000000000
        (Some ''00'') False
       \<noteq> Inl (InvalidHeader InsufficientPow)"
proof -
  have v: "verify_header (MeowcoinMainnet [] [] 1000000) sample_kernels
        sample_legacy_header sample_prev_hash
        0xffff000000000000000000000000000000000000000000000000000000 (Some ''00'') False
       = Inl (InvalidHeader HashMismatch)"
    by code_simp
  show ?thesis
    using sample_legacy_hash sample_legacy_hash_bytes sample_legacy_hash_above_target
    by (simp add: v)
qed

text \<open>
  Claim C7. On mainnet, whatever the checkpoint tables, the AuxPOW activation height,
  the chain and the header cache, \<^const>\<open>get_target\<close> returns \<^const>\<open>KAWPOW_LIMIT\<close> at every
  height from 373 to 552 and \<^const>\<open>MEOWPOW_LIMIT\<close> at every height from 801212 to 801391.
\<close>

theorem get_target_reset_windows:
  "(373 \<le> h \<and> h \<le> 552
      \<longrightarrow> get_target (MeowcoinMainnet cps dgw aux) c h chain = Inr KAWPOW_LIMIT)
   \<and> (801212 \<le> h \<and> h \<le> 801391
      \<longrightarrow> get_target (MeowcoinMainnet cps dgw aux) c h chain = Inr MEOWPOW_LIMIT)"
proof (intro conjI impI)
  assume a: "373 \<le> h \<and> h \<le> 552"
  then have "is_dgw_height_checkpoint (MeowcoinMainnet cps dgw aux) h = Inr None"
    by (intro mainnet_no_sentinel_low) simp
  then show "get_target (MeowcoinMainnet cps dgw aux) c h chain = Inr KAWPOW_LIMIT"
    using a by (simp add: get_target_def bind_err_def MeowcoinMainnet_def)
next
  assume a: "801212 \<le> h \<and> h \<le> 801391"
  then have "is_dgw_height_checkpoint (MeowcoinMainnet cps dgw aux) h = Inr None"
    by (intro mainnet_no_sentinel_meowpow) simp_all
  then show "get_target (MeowcoinMainnet cps dgw aux) c h chain = Inr MEOWPOW_LIMIT"
    using a by (simp add: get_target_def bind_err_def MeowcoinMainnet_def)
qed

theorem get_target_reset_windows_witness:
  "(373::int) \<le> 400 \<and> (400::int) \<le> 552
   \<and> get_target (MeowcoinMainnet [] [] 1000000) sample_empty_chain 400 None
       = Inr KAWPOW_LIMIT
   \<and> (801212::int) \<le> 801300 \<and> (801300::int) \<le> 801391
   \<and> get_target (MeowcoinMainnet [] [] 1000000) sample_empty_chain 801300 None
       = Inr MEOWPOW_LIMIT"
  using get_target_reset_windows
          [where h = 400 and cps = "[]" and dgw = "[]" and aux = 1000000
             and c = sample_empty_chain and chain = None]
        get_target_reset_windows
          [where h = 801300 and cps = "[]" and dgw = "[]" and aux = 1000000
             and c = sample_empty_chain and chain = None]
  by simp



text \<open>
  Claim C3: what the code does at an input where the claim asks for an unchanged store.
  On a main chain whose tip is at or above \<open>start_height\<close>, past the last checkpoint,
  \<^const>\<open>connect_chunk\<close> with an empty chunk returns \<open>False\<close> and leaves the header file cut
  at \<open>start_height\<close> records, so the height of the chain drops to \<open>start_height - 1\<close>.
\<close>

theorem connect_chunk_empty_chunk_truncates:
  "sz = int (length content) div 120 \<and> max_checkpoint n < start_height \<and> start_height < sz
   \<and> get_hash n k (Blockchain 0 None fh ph (Some content) sz) (start_height - 1) = Inr prev
   \<longrightarrow> connect_chunk n k (Blockchain 0 None fh ph (Some content) sz) start_height []
       = Inr (False,
              Blockchain 0 None fh ph (Some (take (nat (start_height * 120)) content))
                start_height)
     \<and> chain_height (Blockchain 0 None fh ph
                        (Some (take (nat (start_height * 120)) content)) start_height)
         < chain_height (Blockchain 0 None fh ph (Some content) sz)"
proof
  assume a: "sz = int (length content) div 120 \<and> max_checkpoint n < start_height
     \<and> start_height < sz
     \<and> get_hash n k (Blockchain 0 None fh ph (Some content) sz) (start_height - 1) = Inr prev"
  then have a1: "sz = int (length content) div 120" and a2: "max_checkpoint n < start_height"
    and a3: "start_height < sz"
    and a4: "get_hash n k (Blockchain 0 None fh ph (Some content) sz) (start_height - 1)
             = Inr prev"
    by blast+
  have h0: "0 \<le> start_height" using a2 max_checkpoint_nonneg[of n] by linarith
  have v: "verify_chunk n k (Blockchain 0 None fh ph (Some content) sz) start_height []
           = Inr ()"
    using a2 a4 by (rule verify_chunk_empty)
  have s: "save_chunk n (Blockchain 0 None fh ph (Some content) sz) start_height []
         = (Inl (InvalidHeader EmptyHeader),
            Blockchain 0 None fh ph (Some (take (nat (start_height * 120)) content))
              start_height)"
    using a1 a2 a3 by (rule save_empty_chunk)
  show "connect_chunk n k (Blockchain 0 None fh ph (Some content) sz) start_height []
       = Inr (False,
              Blockchain 0 None fh ph (Some (take (nat (start_height * 120)) content))
                start_height)
     \<and> chain_height (Blockchain 0 None fh ph
                        (Some (take (nat (start_height * 120)) content)) start_height)
         < chain_height (Blockchain 0 None fh ph (Some content) sz)"
    using h0 a3 by (simp add: connect_chunk_def v s chain_height_def)
qed

theorem connect_chunk_empty_chunk_truncates_witness:
  "((3::int) = int (length (replicate 360 (1::byte))) div 120
    \<and> max_checkpoint (MeowcoinTestnet [] 1000000) < 1 \<and> (1::int) < 3
    \<and> get_hash (MeowcoinTestnet [] 1000000) sample_kernels
          (Blockchain 0 None sample_prev_hash None (Some (replicate 360 1)) 3) (1 - 1)
        = Inr (GENESIS (MeowcoinTestnet [] 1000000)))
   \<and> (connect_chunk (MeowcoinTestnet [] 1000000) sample_kernels
          (Blockchain 0 None sample_prev_hash None (Some (replicate 360 1)) 3) 1 []
        = Inr (False,
               Blockchain 0 None sample_prev_hash None
                 (Some (take (nat (1 * 120)) (replicate 360 1))) 1)
      \<and> chain_height (Blockchain 0 None sample_prev_hash None
                          (Some (take (nat (1 * 120)) (replicate 360 1))) 1)
          < chain_height (Blockchain 0 None sample_prev_hash None
                            (Some (replicate 360 1)) 3))"
proof -
  have g: "get_hash (MeowcoinTestnet [] 1000000) sample_kernels
          (Blockchain 0 None sample_prev_hash None (Some (replicate 360 1)) 3) (1 - 1)
        = Inr (GENESIS (MeowcoinTestnet [] 1000000))"
    by (simp add: get_hash_def is_dgw_height_checkpoint_def max_checkpoint_def
          MeowcoinTestnet_def bind_err_def)
  have p: "(3::int) = int (length (replicate 360 (1::byte))) div 120
    \<and> max_checkpoint (MeowcoinTestnet [] 1000000) < 1 \<and> (1::int) < 3
    \<and> get_hash (MeowcoinTestnet [] 1000000) sample_kernels
          (Blockchain 0 None sample_prev_hash None (Some (replicate 360 1)) 3) (1 - 1)
        = Inr (GENESIS (MeowcoinTestnet [] 1000000))"
    using g by (simp add: max_checkpoint_def MeowcoinTestnet_def)
  note q = connect_chunk_empty_chunk_truncates
         [where n = "MeowcoinTestnet [] 1000000" and k = sample_kernels and sz = 3
            and content = "replicate 360 1" and start_height = 1 and fh = sample_prev_hash
            and ph = None and prev = "GENESIS (MeowcoinTestnet [] 1000000)", THEN mp, OF p]
  show ?thesis using p q by (rule conjI)
qed

end
